theory Spec2Isabelle
  imports Complex_Main
begin

section \<open>Python values and string primitives\<close>

text \<open>
  The wrapper (\<^verbatim>\<open>python/ffmpegwrapper.py\<close>, class \<^verbatim>\<open>FFmpegWrapper\<close>) builds argument
  vectors from strings and keyword options, runs an external program and reads its text
  output. This section models the Python values and the \<^verbatim>\<open>str\<close> methods the file uses.
  A Python \<^verbatim>\<open>str\<close> is modelled as a \<open>string\<close> whose characters are the code points
  below 256; \<^verbatim>\<open>int\<close> is \<open>int\<close>.
\<close>

text \<open>The values a keyword option or a setting can hold.\<close>

datatype pyval = PNone | PBool bool | PInt int | PStr string

text \<open>Truth value of \<^verbatim>\<open>if v:\<close>.\<close>

fun truthy :: "pyval \<Rightarrow> bool" where
  "truthy PNone = False"
| "truthy (PBool b) = b"
| "truthy (PInt i) = (i \<noteq> 0)"
| "truthy (PStr s) = (s \<noteq> [])"

definition digit_char :: "nat \<Rightarrow> char" where
  "digit_char n = ''0123456789'' ! (n mod 10)"

fun str_nat :: "nat \<Rightarrow> string" where
  "str_nat n = (if n < 10 then [digit_char n] else str_nat (n div 10) @ [digit_char (n mod 10)])"

declare str_nat.simps [simp del]

text \<open>\<^verbatim>\<open>str(i)\<close> for an integer.\<close>

definition str_int :: "int \<Rightarrow> string" where
  "str_int i = (if i < 0 then CHR ''-'' # str_nat (nat (- i)) else str_nat (nat i))"

text \<open>\<^verbatim>\<open>str(v)\<close>, as applied to the value of a keyword option.\<close>

fun py_str :: "pyval \<Rightarrow> string" where
  "py_str PNone = ''None''"
| "py_str (PBool b) = (if b then ''True'' else ''False'')"
| "py_str (PInt i) = str_int i"
| "py_str (PStr s) = s"

text \<open>
  \<^verbatim>\<open>str.isspace\<close> on one character: the whitespace code points below 256 (tab, line feed,
  vertical tab, form feed, carriage return, the separators 0x1C to 0x1F, space, 0x85 and
  0xA0).
\<close>

definition py_isspace :: "char \<Rightarrow> bool" where
  "py_isspace c = (c \<in> set [CHR 0x09, CHR 0x0A, CHR 0x0B, CHR 0x0C, CHR 0x0D,
      CHR 0x1C, CHR 0x1D, CHR 0x1E, CHR 0x1F, CHR 0x20, CHR 0x85, CHR 0xA0])"

text \<open>\<^verbatim>\<open>s.strip()\<close>.\<close>

definition py_strip :: "string \<Rightarrow> string" where
  "py_strip s = rev (dropWhile py_isspace (rev (dropWhile py_isspace s)))"

text \<open>\<^verbatim>\<open>s.split()\<close>: the maximal runs of non-whitespace characters, in order.\<close>

fun ws_tokens :: "string \<Rightarrow> string \<Rightarrow> string list" where
  "ws_tokens cur [] = (if cur = [] then [] else [cur])"
| "ws_tokens cur (c # cs) =
     (if py_isspace c then (if cur = [] then ws_tokens [] cs else cur # ws_tokens [] cs)
      else ws_tokens (cur @ [c]) cs)"

definition py_split :: "string \<Rightarrow> string list" where
  "py_split s = ws_tokens [] s"

text \<open>\<^verbatim>\<open>s.split(d)\<close> for a one-character separator: empty pieces are kept.\<close>

fun split_on_aux :: "char \<Rightarrow> string \<Rightarrow> string \<Rightarrow> string list" where
  "split_on_aux d cur [] = [cur]"
| "split_on_aux d cur (c # cs) =
     (if c = d then cur # split_on_aux d [] cs else split_on_aux d (cur @ [c]) cs)"

definition py_split_on :: "char \<Rightarrow> string \<Rightarrow> string list" where
  "py_split_on d s = split_on_aux d [] s"

text \<open>\<^verbatim>\<open>s.startswith(p)\<close> and \<^verbatim>\<open>p in s\<close> (substring test).\<close>

definition py_startswith :: "string \<Rightarrow> string \<Rightarrow> bool" where
  "py_startswith s p = (take (length p) s = p)"

fun py_contains :: "string \<Rightarrow> string \<Rightarrow> bool" where
  "py_contains p [] = (p = [])"
| "py_contains p (c # cs) = (py_startswith (c # cs) p \<or> py_contains p cs)"

text \<open>\<^verbatim>\<open>sep.join(xs)\<close> on a list of strings.\<close>

fun py_join :: "string \<Rightarrow> string list \<Rightarrow> string" where
  "py_join sep [] = []"
| "py_join sep [x] = x"
| "py_join sep (x # y # ys) = x @ sep @ py_join sep (y # ys)"

text \<open>
  \<^verbatim>\<open>int(s)\<close> on a string, base 10. The whitespace it strips is narrower than that of
  \<^verbatim>\<open>str.strip\<close>: tab, line feed, vertical tab, form feed, carriage return and space, and of
  the characters above 126 those that are whitespace (0x85 and 0xA0); the separators 0x1C
  to 0x1F are not stripped, so they make the literal malformed. Then one sign is allowed,
  then decimal digits, with single underscores allowed between digits. The interpreter
  refuses a literal of more than 640 digits when its digit limit is set (not 0) and
  exceeded. \<open>None\<close> stands for the \<^verbatim>\<open>ValueError\<close> of a refused literal.
\<close>

definition int_isspace :: "char \<Rightarrow> bool" where
  "int_isspace c = (c \<in> set [CHR 0x09, CHR 0x0A, CHR 0x0B, CHR 0x0C, CHR 0x0D, CHR 0x20,
      CHR 0x85, CHR 0xA0])"

definition int_strip :: "string \<Rightarrow> string" where
  "int_strip s = rev (dropWhile int_isspace (rev (dropWhile int_isspace s)))"

definition is_digit :: "char \<Rightarrow> bool" where
  "is_digit c = (c \<in> set ''0123456789'')"

definition digit_val :: "char \<Rightarrow> nat" where
  "digit_val c = length (takeWhile (\<lambda>d. d \<noteq> c) ''0123456789'')"

fun parse_digits :: "bool \<Rightarrow> nat \<Rightarrow> string \<Rightarrow> nat option" where
  "parse_digits prev acc [] = (if prev then Some acc else None)"
| "parse_digits prev acc (c # cs) =
     (if is_digit c then parse_digits True (acc * 10 + digit_val c) cs
      else if c = CHR ''_'' \<and> prev then parse_digits False acc cs
      else None)"

definition over_digit_limit :: "nat \<Rightarrow> string \<Rightarrow> bool" where
  "over_digit_limit limit s =
     (let digits = length (filter is_digit s)
      in digits > 640 \<and> limit > 0 \<and> digits > limit)"

definition py_int :: "nat \<Rightarrow> string \<Rightarrow> int option" where
  "py_int limit s =
     (case int_strip s of
        [] \<Rightarrow> None
      | c # cs \<Rightarrow>
          if c = CHR ''-'' then
            (if over_digit_limit limit cs then None
             else map_option (\<lambda>n. - int n) (parse_digits False 0 cs))
          else if c = CHR ''+'' then
            (if over_digit_limit limit cs then None
             else map_option int (parse_digits False 0 cs))
          else
            (if over_digit_limit limit (c # cs) then None
             else map_option int (parse_digits False 0 (c # cs))))"

section \<open>Exceptions, results and the effects of a call\<close>

text \<open>
  The exceptions that can cross the wrapper. \<open>ValueError\<close> carries the message when the
  wrapper raises it itself and \<open>None\<close> when a builtin raises it (the interpreter's message
  is not modelled). \<open>CalledProcessError\<close> carries the exit status and the command, as
  \<^verbatim>\<open>subprocess.run(..., check=True)\<close> raises it.
\<close>

datatype exn =
    ValueError "string option"
  | TypeError
  | AttributeError
  | KeyError
  | OverflowError
  | ZeroDivisionError
  | OSError string
  | CalledProcessError int "string list"
  | JSONDecodeError string

text \<open>Pure code that may raise returns \<open>exn + 'a\<close>, \<open>Inl\<close> being the exception.\<close>

definition ebind :: "exn + 'a \<Rightarrow> ('a \<Rightarrow> exn + 'b) \<Rightarrow> exn + 'b" where
  "ebind m f = (case m of Inl e \<Rightarrow> Inl e | Inr x \<Rightarrow> f x)"

text \<open>
  The outcome of an effectful call: it returns, it raises, or it blocks for ever on a
  child process that never exits (the executors have no timeout).
\<close>

datatype 'a res = Ok 'a | Raise exn | Hang

datatype level = INFO | DEBUG | ERROR

text \<open>
  What a call leaves behind: the logger's records, the command lines handed to the
  operating system for launching (in order), the directories created, and the texts the
  progress callback was called with.
\<close>

record effects =
  logged :: "(level \<times> string) list"
  spawned :: "string list list"
  made_dirs :: "string list"
  notified :: "string list"

type_synonym 'a act = "effects \<Rightarrow> 'a res \<times> effects"

definition ret :: "'a \<Rightarrow> 'a act" where
  "ret x s = (Ok x, s)"

definition raise :: "exn \<Rightarrow> 'a act" where
  "raise e s = (Raise e, s)"

definition bnd :: "'a act \<Rightarrow> ('a \<Rightarrow> 'b act) \<Rightarrow> 'b act" where
  "bnd m f s =
     (case m s of
        (Ok x, s') \<Rightarrow> f x s'
      | (Raise e, s') \<Rightarrow> (Raise e, s')
      | (Hang, s') \<Rightarrow> (Hang, s'))"

definition lift :: "exn + 'a \<Rightarrow> 'a act" where
  "lift m = (case m of Inl e \<Rightarrow> raise e | Inr x \<Rightarrow> ret x)"

text \<open>\<^verbatim>\<open>try: m except ... as e: h e\<close>; the handler decides which classes it catches.\<close>

definition try_except :: "'a act \<Rightarrow> (exn \<Rightarrow> 'a act) \<Rightarrow> 'a act" where
  "try_except m h s =
     (case m s of
        (Raise e, s') \<Rightarrow> h e s'
      | r \<Rightarrow> r)"

definition logger :: "level \<Rightarrow> string \<Rightarrow> unit act" where
  "logger lv msg s = (Ok (), s\<lparr>logged := logged s @ [(lv, msg)]\<rparr>)"

section \<open>The host framework, the wrapper object and the outside world\<close>

text \<open>\<^verbatim>\<open>d.get(k, default)\<close> on a dictionary, held as the list of its items.\<close>

definition dict_get :: "(string \<times> 'a) list \<Rightarrow> string \<Rightarrow> 'a \<Rightarrow> 'a" where
  "dict_get m k d = (case map_of m k of Some v \<Rightarrow> v | None \<Rightarrow> d)"

text \<open>
  \<^verbatim>\<open>self._framework.settings\<close>: the attribute may be missing (or \<^verbatim>\<open>None\<close>), it is a
  dictionary in the host toolkit, and any other object with a \<^verbatim>\<open>get\<close> method is a
  function that may raise.
\<close>

datatype settings_provider =
    NoProvider
  | DictProvider "(string \<times> pyval) list"
  | CustomProvider "string \<Rightarrow> pyval \<Rightarrow> exn + pyval"

text \<open>\<^verbatim>\<open>self._framework.settings.get(key, default)\<close>.\<close>

fun settings_get :: "settings_provider \<Rightarrow> string \<Rightarrow> pyval \<Rightarrow> exn + pyval" where
  "settings_get NoProvider k d = Inl AttributeError"
| "settings_get (DictProvider m) k d = Inr (dict_get m k d)"
| "settings_get (CustomProvider f) k d = f k d"

text \<open>
  Lines 302-305 and 312-315 of \<^verbatim>\<open>convert_video\<close>:
  \<^verbatim>\<open>try: default = self._framework.settings.get(key, fixed)\<close>
  \<^verbatim>\<open>except (AttributeError, KeyError): default = fixed\<close>.
\<close>

definition default_codec :: "settings_provider \<Rightarrow> string \<Rightarrow> string \<Rightarrow> exn + pyval" where
  "default_codec p key fixed =
     (case settings_get p key (PStr fixed) of
        Inl AttributeError \<Rightarrow> Inr (PStr fixed)
      | Inl KeyError \<Rightarrow> Inr (PStr fixed)
      | r \<Rightarrow> r)"

text \<open>The fields \<^verbatim>\<open>__init__\<close> sets on the wrapper object.\<close>

record wrapper =
  framework_settings :: settings_provider
  ffmpeg_path :: string
  ffprobe_path :: string
  max_threads :: int
  default_video_codec :: string
  default_audio_codec :: string

text \<open>
  \<^verbatim>\<open>__init__\<close>. The two paths come from \<^verbatim>\<open>_get_bundled_ffmpeg_path\<close> and
  \<^verbatim>\<open>_get_bundled_ffprobe_path\<close>, which only do path arithmetic on the module's location;
  they are taken as arguments here.
\<close>

definition FFmpegWrapper :: "settings_provider \<Rightarrow> string \<Rightarrow> string \<Rightarrow> wrapper act" where
  "FFmpegWrapper framework bundled_ffmpeg bundled_ffprobe =
     (let self = \<lparr>framework_settings = framework, ffmpeg_path = bundled_ffmpeg,
                  ffprobe_path = bundled_ffprobe, max_threads = 4,
                  default_video_codec = ''libx264'', default_audio_codec = ''aac''\<rparr>
      in bnd (logger INFO (''FFmpeg path: '' @ ffmpeg_path self)) (\<lambda>_.
         bnd (logger INFO (''FFprobe path: '' @ ffprobe_path self)) (\<lambda>_.
         ret self)))"

text \<open>
  What comes of a child process once the operating system is asked to start it: the
  library raises an exception (the launch fails, or what the child wrote cannot be
  decoded), the child exits with a status, its standard output and its diagnostic stream
  being the texts the library hands over (decoded, line ends translated), or it never
  exits.
\<close>

datatype outcome = Launch_fails exn | Exits int string string | Never_exits

text \<open>The parsed form of a JSON document, as \<^verbatim>\<open>json.loads\<close> returns it; \<open>'f\<close> is the type of floats.\<close>

datatype 'f json =
    JNull
  | JBool bool
  | JInt int
  | JFloat 'f
  | JStr string
  | JArr "'f json list"
  | JObj "(string \<times> 'f json) list"

text \<open>
  The number operations of the interpreter that \<^verbatim>\<open>get_video_info\<close> uses, taken as
  parameters: the literal \<^verbatim>\<open>0.0\<close>, \<^verbatim>\<open>float(s)\<close> on a string (\<open>None\<close>: \<^verbatim>\<open>ValueError\<close>),
  \<^verbatim>\<open>float(i)\<close> on an integer (\<open>None\<close>: \<^verbatim>\<open>OverflowError\<close>), \<^verbatim>\<open>int(x)\<close> on a float, the
  test \<^verbatim>\<open>x == 0.0\<close>, the quotient of two floats with a non-zero divisor,
  \<^verbatim>\<open>round(x, 2)\<close>, and the digit limit of \<^verbatim>\<open>int(s)\<close> (\<^verbatim>\<open>sys.get_int_max_str_digits()\<close>: 4300
  unless configured otherwise, 0 for no limit, as in interpreters that have none).
\<close>

record 'f float_ops =
  f_zero :: 'f
  f_of_str :: "string \<Rightarrow> 'f option"
  f_of_int :: "int \<Rightarrow> 'f option"
  f_trunc :: "'f \<Rightarrow> exn + int"
  f_is_zero :: "'f \<Rightarrow> bool"
  f_quot :: "'f \<Rightarrow> 'f \<Rightarrow> 'f"
  f_round2 :: "'f \<Rightarrow> 'f"
  int_max_str_digits :: nat

text \<open>
  Everything outside the wrapper: \<^verbatim>\<open>os.path.exists\<close>, \<^verbatim>\<open>os.path.dirname\<close>,
  \<^verbatim>\<open>os.makedirs\<close> (\<open>Some e\<close>: it raises \<open>e\<close>), the child process a command line leads to,
  what the monitoring thread of the progress executor takes from the child's diagnostic
  stream before the rest is collected (the number of lines it gets to read, and the
  number of further characters its reader has buffered, which nobody sees),
  \<^verbatim>\<open>json.loads\<close>, \<^verbatim>\<open>str(e)\<close> on an exception, and the number operations.
\<close>

record 'f world =
  path_exists :: "string \<Rightarrow> bool"
  dirname :: "string \<Rightarrow> string"
  makedirs :: "string \<Rightarrow> exn option"
  spawn :: "string list \<Rightarrow> outcome"
  monitor_reads :: "string list \<Rightarrow> nat \<times> nat"
  json_loads :: "string \<Rightarrow> exn + 'f json"
  exn_str :: "exn \<Rightarrow> string"
  floats :: "'f float_ops"

section \<open>Running a child process\<close>

text \<open>
  The object \<^verbatim>\<open>subprocess.run\<close> returns (and the \<^verbatim>\<open>ProcessResult\<close> the progress executor
  builds): a stream that was not captured is \<^verbatim>\<open>None\<close>.
\<close>

record proc_result =
  returncode :: int
  stdout :: "string option"
  stderr :: "string option"

text \<open>
  The keyword arguments the wrapper's own calls pass on to \<^verbatim>\<open>subprocess.run\<close>. Every call
  that captures output also passes \<^verbatim>\<open>text=True\<close>, so captured streams are strings.
\<close>

record run_kwargs =
  capture_output :: bool
  check :: bool

text \<open>
  \<^verbatim>\<open>subprocess.run(cmd, **kwargs)\<close>: the command line is handed to the operating system;
  with \<^verbatim>\<open>check=True\<close> a non-zero exit status is raised as \<open>CalledProcessError\<close>.
\<close>

definition subprocess_run :: "'f world \<Rightarrow> string list \<Rightarrow> run_kwargs \<Rightarrow> proc_result act" where
  "subprocess_run W cmd kwargs s =
     (let s' = s\<lparr>spawned := spawned s @ [cmd]\<rparr> in
      case spawn W cmd of
        Launch_fails e \<Rightarrow> (Raise e, s')
      | Never_exits \<Rightarrow> (Hang, s')
      | Exits rc out err \<Rightarrow>
          if check kwargs \<and> rc \<noteq> 0 then (Raise (CalledProcessError rc cmd), s')
          else (Ok \<lparr>returncode = rc,
                    stdout = (if capture_output kwargs then Some out else None),
                    stderr = (if capture_output kwargs then Some err else None)\<rparr>, s'))"

text \<open>
  \<^verbatim>\<open>" ".join(cmd)\<close> on a list of values: a \<^verbatim>\<open>TypeError\<close> unless every item is a string.
  The strings of the list are returned with the joined line.
\<close>

fun str_items :: "pyval list \<Rightarrow> exn + string list" where
  "str_items [] = Inr []"
| "str_items (PStr x # xs) = ebind (str_items xs) (\<lambda>ys. Inr (x # ys))"
| "str_items (_ # xs) = Inl TypeError"

text \<open>The logging after a child has exited (lines 85-88, 167-170 and 192-195).\<close>

definition log_failure :: "string \<Rightarrow> proc_result \<Rightarrow> unit act" where
  "log_failure tool result =
     (if returncode result \<noteq> 0 then
        bnd (logger ERROR (tool @ '' command failed with return code '' @ str_int (returncode result)))
          (\<lambda>_. case stderr result of
                  None \<Rightarrow> ret ()
                | Some err \<Rightarrow>
                    if err \<noteq> [] then logger ERROR (tool @ '' stderr: '' @ err) else ret ())
      else ret ())"

definition execute_ffmpeg_command ::
  "wrapper \<Rightarrow> 'f world \<Rightarrow> pyval list \<Rightarrow> run_kwargs \<Rightarrow> proc_result act" where
  "execute_ffmpeg_command self W args kwargs =
     (let cmd = PStr (ffmpeg_path self) # args;
          cmd = (if max_threads self > 0
                 then cmd @ [PStr ''-threads'', PStr (str_int (max_threads self))] else cmd)
      in bnd (lift (str_items cmd)) (\<lambda>cmd.
         bnd (logger DEBUG (''Executing FFmpeg command: '' @ py_join '' '' cmd)) (\<lambda>_.
         try_except
           (bnd (subprocess_run W cmd kwargs) (\<lambda>result.
            bnd (log_failure ''FFmpeg'' result) (\<lambda>_.
            ret result)))
           (\<lambda>e. bnd (logger ERROR (''FFmpeg command failed: '' @ exn_str W e)) (\<lambda>_.
                 raise e)))))"

text \<open>\<^verbatim>\<open>execute_command\<close>, the legacy name of the same method.\<close>

definition execute_command ::
  "wrapper \<Rightarrow> 'f world \<Rightarrow> pyval list \<Rightarrow> run_kwargs \<Rightarrow> proc_result act" where
  "execute_command self W args kwargs = execute_ffmpeg_command self W args kwargs"

text \<open>\<^verbatim>\<open>readline\<close>, repeated: the lines of a text, each with its line feed.\<close>

fun read_lines_aux :: "string \<Rightarrow> string \<Rightarrow> string list" where
  "read_lines_aux cur [] = (if cur = [] then [] else [cur])"
| "read_lines_aux cur (c # cs) =
     (if c = CHR 0x0A then (cur @ [c]) # read_lines_aux [] cs
      else read_lines_aux (cur @ [c]) cs)"

definition read_lines :: "string \<Rightarrow> string list" where
  "read_lines s = read_lines_aux [] s"

text \<open>
  Lines 119-165 of \<^verbatim>\<open>execute_ffmpeg_with_progress\<close>: the child is started with both pipes
  captured as text (the diagnostic text of an outcome is the stream after the translation
  of line ends). With a callback, the monitoring thread reads lines of the diagnostic
  stream while the child runs, as many as the world lets it (it stops early when the
  callback raises, which is swallowed), and calls the callback with every line read that
  contains \<^verbatim>\<open>time=\<close>. The polling loop waits for the child; \<^verbatim>\<open>communicate()\<close> then collects
  the standard output and what is left of the diagnostic stream. Without a callback no
  thread is started and the whole stream is left. For a child that never exits the calls
  of the callback are not recorded.
\<close>

definition popen_monitored :: "'f world \<Rightarrow> string list \<Rightarrow> bool \<Rightarrow> proc_result act" where
  "popen_monitored W cmd progress_callback s =
     (let s' = s\<lparr>spawned := spawned s @ [cmd]\<rparr> in
      case spawn W cmd of
        Launch_fails e \<Rightarrow> (Raise e, s')
      | Never_exits \<Rightarrow> (Hang, s')
      | Exits rc out err \<Rightarrow>
          let lines = read_lines err;
              (n, buffered) = (if progress_callback then monitor_reads W cmd else (0, 0));
              calls = map (\<lambda>line. ''FFmpeg: '' @ py_strip line)
                        (filter (py_contains ''time='') (take n lines));
              rest = drop buffered (concat (drop n lines))
          in (Ok \<lparr>returncode = rc, stdout = Some out, stderr = Some rest\<rparr>,
              s'\<lparr>notified := notified s' @ calls\<rparr>))"

text \<open>
  \<^verbatim>\<open>execute_ffmpeg_with_progress\<close>, as \<^verbatim>\<open>convert_video\<close> calls it (no further keyword
  arguments); \<open>progress_callback\<close> is the truth value of the callback argument.
\<close>

definition execute_ffmpeg_with_progress ::
  "wrapper \<Rightarrow> 'f world \<Rightarrow> pyval list \<Rightarrow> bool \<Rightarrow> proc_result act" where
  "execute_ffmpeg_with_progress self W args progress_callback =
     (let cmd = PStr (ffmpeg_path self) # args;
          cmd = (if max_threads self > 0
                 then cmd @ [PStr ''-threads'', PStr (str_int (max_threads self))] else cmd);
          cmd = cmd @ [PStr ''-progress'', PStr ''pipe:2'']
      in bnd (lift (str_items cmd)) (\<lambda>cmd.
         bnd (logger DEBUG (''Executing FFmpeg command with progress: '' @ py_join '' '' cmd)) (\<lambda>_.
         try_except
           (bnd (popen_monitored W cmd progress_callback) (\<lambda>result.
            bnd (log_failure ''FFmpeg'' result) (\<lambda>_.
            ret result)))
           (\<lambda>e. bnd (logger ERROR (''FFmpeg command failed: '' @ exn_str W e)) (\<lambda>_.
                 raise e)))))"

definition execute_ffprobe_command ::
  "wrapper \<Rightarrow> 'f world \<Rightarrow> pyval list \<Rightarrow> run_kwargs \<Rightarrow> proc_result act" where
  "execute_ffprobe_command self W args kwargs =
     (let cmd = PStr (ffprobe_path self) # args
      in bnd (lift (str_items cmd)) (\<lambda>cmd.
         bnd (logger DEBUG (''Executing FFprobe command: '' @ py_join '' '' cmd)) (\<lambda>_.
         try_except
           (bnd (subprocess_run W cmd kwargs) (\<lambda>result.
            bnd (log_failure ''FFprobe'' result) (\<lambda>_.
            ret result)))
           (\<lambda>e. bnd (logger ERROR (''FFprobe command failed: '' @ exn_str W e)) (\<lambda>_.
                 raise e)))))"

section \<open>The operations that build a command\<close>

text \<open>\<^verbatim>\<open>options.pop(k, d)\<close>: the value (or the default) and the dictionary without the key.\<close>

definition pop_option ::
  "(string \<times> pyval) list \<Rightarrow> string \<Rightarrow> pyval \<Rightarrow> pyval \<times> (string \<times> pyval) list" where
  "pop_option options k d = (dict_get options k d, filter (\<lambda>kv. fst kv \<noteq> k) options)"

text \<open>
  Lines 299-328 of \<^verbatim>\<open>convert_video\<close>: the argument vector. The codec values go into the
  vector as they are; the other options through \<^verbatim>\<open>str\<close>.
\<close>

definition convert_args ::
  "wrapper \<Rightarrow> string \<Rightarrow> string \<Rightarrow> (string \<times> pyval) list \<Rightarrow> exn + pyval list" where
  "convert_args self input_path output_path options =
     (let args = [PStr ''-i'', PStr input_path] in
      ebind (default_codec (framework_settings self) ''default_video_codec'' ''libx264'')
        (\<lambda>default_video.
      let (vcodec, options) = pop_option options ''vcodec'' default_video;
          args = (if truthy vcodec then args @ [PStr ''-vcodec'', vcodec] else args) in
      ebind (default_codec (framework_settings self) ''default_audio_codec'' ''aac'')
        (\<lambda>default_audio.
      let (acodec, options) = pop_option options ''acodec'' default_audio;
          args = (if truthy acodec then args @ [PStr ''-acodec'', acodec] else args);
          args = foldl (\<lambda>args (key, v).
                    if v \<noteq> PNone then args @ [PStr (''-'' @ key), PStr (py_str v)] else args)
                   args options;
          args = args @ [PStr ''-y''];
          args = args @ [PStr output_path]
      in Inr args)))"

text \<open>Lines 294-297: the output directory is created when it is named and missing.\<close>

definition ensure_output_dir :: "'f world \<Rightarrow> string \<Rightarrow> unit act" where
  "ensure_output_dir W output_path s =
     (let output_dir = dirname W output_path in
      if output_dir \<noteq> [] \<and> \<not> path_exists W output_dir then
        (case makedirs W output_dir of
           Some e \<Rightarrow> (Raise e, s)
         | None \<Rightarrow> (Ok (), s\<lparr>made_dirs := made_dirs s @ [output_dir]\<rparr>))
      else (Ok (), s))"

text \<open>
  \<^verbatim>\<open>convert_video\<close>. \<open>progress_callback\<close> is the truth value of the callback argument
  (whether one was supplied).
\<close>

definition convert_video ::
  "wrapper \<Rightarrow> 'f world \<Rightarrow> string \<Rightarrow> string \<Rightarrow> bool \<Rightarrow> (string \<times> pyval) list \<Rightarrow> proc_result act" where
  "convert_video self W input_path output_path progress_callback options =
     (if \<not> path_exists W input_path then
        raise (ValueError (Some (''Input file does not exist: '' @ input_path)))
      else
        bnd (ensure_output_dir W output_path) (\<lambda>_.
        bnd (lift (convert_args self input_path output_path options)) (\<lambda>args.
        if progress_callback then execute_ffmpeg_with_progress self W args progress_callback
        else execute_ffmpeg_command self W args \<lparr>capture_output = True, check = False\<rparr>)))"

text \<open>\<^verbatim>\<open>create_proxy\<close>: two table lookups, then \<^verbatim>\<open>convert_video\<close> with three options.\<close>

definition resolution_map :: "(string \<times> string) list" where
  "resolution_map = [(''720p'', ''1280x720''), (''1080p'', ''1920x1080''), (''480p'', ''854x480'')]"

definition quality_map :: "(string \<times> (string \<times> string)) list" where
  "quality_map = [(''fast'', (''28'', ''fast'')), (''medium'', (''23'', ''medium'')),
                  (''slow'', (''18'', ''slow''))]"

definition create_proxy ::
  "wrapper \<Rightarrow> 'f world \<Rightarrow> string \<Rightarrow> string \<Rightarrow> string \<Rightarrow> string \<Rightarrow> proc_result act" where
  "create_proxy self W input_path output_path resolution quality =
     (let target_res = dict_get resolution_map resolution resolution in
      case map_of quality_map ''medium'' of
        None \<Rightarrow> raise KeyError
      | Some medium \<Rightarrow>
          let (crf, preset) = dict_get quality_map quality medium
          in convert_video self W input_path output_path False
               [(''vf'', PStr (''scale='' @ target_res)), (''crf'', PStr crf),
                (''preset'', PStr preset)])"

text \<open>\<^verbatim>\<open>extract_frames\<close>; an argument left out is \<open>PNone\<close>.\<close>

definition extract_frames ::
  "wrapper \<Rightarrow> 'f world \<Rightarrow> string \<Rightarrow> string \<Rightarrow> pyval \<Rightarrow> pyval \<Rightarrow> pyval \<Rightarrow> proc_result act" where
  "extract_frames self W video_path output_pattern start_time duration_arg fps_arg =
     (let args = [];
          args = (if start_time \<noteq> PNone then args @ [PStr ''-ss'', PStr (py_str start_time)] else args);
          args = args @ [PStr ''-i'', PStr video_path];
          args = (if duration_arg \<noteq> PNone then args @ [PStr ''-t'', PStr (py_str duration_arg)] else args);
          args = (if fps_arg \<noteq> PNone then args @ [PStr ''-vf'', PStr (''fps='' @ py_str fps_arg)] else args);
          args = args @ [PStr ''-y''];
          args = args @ [PStr output_pattern]
      in execute_ffmpeg_command self W args \<lparr>capture_output = True, check = False\<rparr>)"

definition create_thumbnail ::
  "wrapper \<Rightarrow> 'f world \<Rightarrow> string \<Rightarrow> string \<Rightarrow> pyval \<Rightarrow> proc_result act" where
  "create_thumbnail self W video_path output_path time_offset =
     (let args = [PStr ''-i'', PStr video_path, PStr ''-ss'', PStr (py_str time_offset),
                  PStr ''-vframes'', PStr ''1'', PStr ''-y'', PStr output_path]
      in execute_ffmpeg_command self W args \<lparr>capture_output = True, check = False\<rparr>)"

text \<open>\<^verbatim>\<open>validate_media_file\<close>: every exception becomes the answer \<^verbatim>\<open>False\<close>.\<close>

definition validate_media_file :: "wrapper \<Rightarrow> 'f world \<Rightarrow> string \<Rightarrow> bool act" where
  "validate_media_file self W media_path =
     try_except
       (let args = [PStr ''-v'', PStr ''error'', PStr ''-show_entries'', PStr ''format=duration'',
                    PStr ''-of'', PStr ''csv=p=0'', PStr media_path]
        in bnd (execute_ffprobe_command self W args \<lparr>capture_output = True, check = False\<rparr>)
             (\<lambda>result. ret (returncode result = 0)))
       (\<lambda>e. ret False)"

section \<open>Reading the probe's JSON\<close>

text \<open>\<^verbatim>\<open>x.get(k, d)\<close>: only a dictionary has the method.\<close>

fun obj_get :: "'f json \<Rightarrow> string \<Rightarrow> 'f json \<Rightarrow> exn + 'f json" where
  "obj_get (JObj m) k d = Inr (dict_get m k d)"
| "obj_get _ k d = Inl AttributeError"

text \<open>\<^verbatim>\<open>k in x\<close> for a string \<open>k\<close>: key of a dictionary, item of a list, substring of a string.\<close>

fun json_contains :: "string \<Rightarrow> 'f json \<Rightarrow> exn + bool" where
  "json_contains k (JObj m) = Inr (map_of m k \<noteq> None)"
| "json_contains k (JArr xs) = Inr (JStr k \<in> set xs)"
| "json_contains k (JStr s) = Inr (py_contains k s)"
| "json_contains k _ = Inl TypeError"

text \<open>\<^verbatim>\<open>x[k]\<close> for a string \<open>k\<close>.\<close>

fun json_item :: "'f json \<Rightarrow> string \<Rightarrow> exn + 'f json" where
  "json_item (JObj m) k = (case map_of m k of Some v \<Rightarrow> Inr v | None \<Rightarrow> Inl KeyError)"
| "json_item _ k = Inl TypeError"

text \<open>\<^verbatim>\<open>for stream in x\<close>: the items of a list, the keys of a dictionary, the characters of a string.\<close>

fun json_iter :: "'f json \<Rightarrow> exn + 'f json list" where
  "json_iter (JArr xs) = Inr xs"
| "json_iter (JObj m) = Inr (map (\<lambda>kv. JStr (fst kv)) m)"
| "json_iter (JStr s) = Inr (map (\<lambda>c. JStr [c]) s)"
| "json_iter _ = Inl TypeError"

text \<open>\<^verbatim>\<open>x.split(d)\<close>: only a string has the method.\<close>

fun json_split :: "'f json \<Rightarrow> char \<Rightarrow> exn + string list" where
  "json_split (JStr s) d = Inr (py_split_on d s)"
| "json_split _ d = Inl AttributeError"

text \<open>\<^verbatim>\<open>float(x)\<close> and \<^verbatim>\<open>int(x)\<close> on a parsed JSON value.\<close>

definition of_opt :: "exn \<Rightarrow> 'a option \<Rightarrow> exn + 'a" where
  "of_opt e x = (case x of None \<Rightarrow> Inl e | Some v \<Rightarrow> Inr v)"

fun py_float :: "'f float_ops \<Rightarrow> 'f json \<Rightarrow> exn + 'f" where
  "py_float F (JStr s) = of_opt (ValueError None) (f_of_str F s)"
| "py_float F (JInt i) = of_opt OverflowError (f_of_int F i)"
| "py_float F (JFloat x) = Inr x"
| "py_float F (JBool b) = of_opt OverflowError (f_of_int F (if b then 1 else 0))"
| "py_float F _ = Inl TypeError"

fun py_int_of :: "'f float_ops \<Rightarrow> 'f json \<Rightarrow> exn + int" where
  "py_int_of F (JStr s) = of_opt (ValueError None) (py_int (int_max_str_digits F) s)"
| "py_int_of F (JInt i) = Inr i"
| "py_int_of F (JFloat x) = f_trunc F x"
| "py_int_of F (JBool b) = Inr (if b then 1 else 0)"
| "py_int_of F _ = Inl TypeError"

text \<open>\<^verbatim>\<open>x / y\<close> on floats.\<close>

definition float_div :: "'f float_ops \<Rightarrow> 'f \<Rightarrow> 'f \<Rightarrow> exn + 'f" where
  "float_div F x y = (if f_is_zero F y then Inl ZeroDivisionError else Inr (f_quot F x y))"

text \<open>The dictionary \<^verbatim>\<open>info\<close>; \<^verbatim>\<open>None\<close> is \<open>JNull\<close>, and \<open>None\<close> for the frame rate.\<close>

record 'f video_info =
  duration :: 'f
  width :: "'f json"
  height :: "'f json"
  fps :: "'f option"
  video_codec :: "'f json"
  audio_codec :: "'f json"
  bitrate :: int
  file_size :: int

text \<open>
  Lines 262-266: the frame rate a video stream sets; \<open>Inr None\<close> when the stream leaves
  \<^verbatim>\<open>info['fps']\<close> as it is.
\<close>

definition frame_rate :: "'f float_ops \<Rightarrow> 'f json \<Rightarrow> exn + 'f option" where
  "frame_rate F stream =
     ebind (obj_get stream ''r_frame_rate'' (JStr ''0/1'')) (\<lambda>fps_str.
     ebind (json_contains ''/'' fps_str) (\<lambda>has_slash.
     if has_slash then
       ebind (json_split fps_str CHR ''/'') (\<lambda>parts.
       case parts of
         [num, den] \<Rightarrow>
           ebind (of_opt (ValueError None) (py_int (int_max_str_digits F) den)) (\<lambda>d.
           if d \<noteq> 0 then
             ebind (of_opt (ValueError None) (f_of_str F num)) (\<lambda>x.
             ebind (of_opt (ValueError None) (f_of_str F den)) (\<lambda>y.
             ebind (float_div F x y) (\<lambda>q.
             Inr (Some (f_round2 F q)))))
           else Inr None)
       | _ \<Rightarrow> Inl (ValueError None))
     else Inr None))"

text \<open>The body of the loop over the streams (lines 256-269).\<close>

definition process_stream ::
  "'f float_ops \<Rightarrow> 'f video_info \<Rightarrow> 'f json \<Rightarrow> exn + 'f video_info" where
  "process_stream F info stream =
     ebind (obj_get stream ''codec_type'' JNull) (\<lambda>codec_type.
     if codec_type = JStr ''video'' then
       ebind (obj_get stream ''width'' JNull) (\<lambda>w.
       ebind (obj_get stream ''height'' JNull) (\<lambda>h.
       ebind (obj_get stream ''codec_name'' JNull) (\<lambda>cn.
       let info = info\<lparr>width := w, height := h, video_codec := cn\<rparr> in
       ebind (frame_rate F stream) (\<lambda>rate.
       case rate of
         Some v \<Rightarrow> Inr (info\<lparr>fps := Some v\<rparr>)
       | None \<Rightarrow> Inr info))))
     else if codec_type = JStr ''audio'' then
       ebind (obj_get stream ''codec_name'' JNull) (\<lambda>cn.
       Inr (info\<lparr>audio_codec := cn\<rparr>))
     else Inr info)"

fun scan_streams ::
  "'f float_ops \<Rightarrow> 'f video_info \<Rightarrow> 'f json list \<Rightarrow> exn + 'f video_info" where
  "scan_streams F info [] = Inr info"
| "scan_streams F info (stream # rest) =
     ebind (process_stream F info stream) (\<lambda>info'. scan_streams F info' rest)"

text \<open>Lines 235-271 of \<^verbatim>\<open>get_video_info\<close>: from the parsed document to the dictionary.\<close>

definition extract_info :: "'f float_ops \<Rightarrow> 'f json \<Rightarrow> exn + 'f video_info" where
  "extract_info F data =
     (let info = \<lparr>duration = f_zero F, width = JNull, height = JNull, fps = None,
                  video_codec = JNull, audio_codec = JNull, bitrate = 0, file_size = 0\<rparr> in
      ebind (json_contains ''format'' data) (\<lambda>has_format.
      ebind (if has_format then
               ebind (json_item data ''format'') (\<lambda>format_info.
               ebind (obj_get format_info ''duration'' (JInt 0)) (\<lambda>d.
               ebind (py_float F d) (\<lambda>dur.
               ebind (obj_get format_info ''bit_rate'' (JInt 0)) (\<lambda>b.
               ebind (py_int_of F b) (\<lambda>br.
               ebind (obj_get format_info ''size'' (JInt 0)) (\<lambda>sz.
               ebind (py_int_of F sz) (\<lambda>fs.
               Inr (info\<lparr>duration := dur, bitrate := br, file_size := fs\<rparr>))))))))
             else Inr info) (\<lambda>info.
      ebind (obj_get data ''streams'' (JArr [])) (\<lambda>streams.
      ebind (json_iter streams) (\<lambda>items.
      scan_streams F info items)))))"

text \<open>The two \<^verbatim>\<open>except\<close> clauses of \<^verbatim>\<open>get_video_info\<close> and \<^verbatim>\<open>get_stream_info\<close>.\<close>

definition probe_handler :: "'f world \<Rightarrow> exn \<Rightarrow> 'a act" where
  "probe_handler W e =
     (case e of
        CalledProcessError rc cmd \<Rightarrow>
          bnd (logger ERROR (''ffprobe command failed: '' @ exn_str W e)) (\<lambda>_. raise e)
      | JSONDecodeError m \<Rightarrow>
          bnd (logger ERROR (''Failed to parse ffprobe output: '' @ exn_str W e)) (\<lambda>_. raise e)
      | _ \<Rightarrow> raise e)"

text \<open>\<^verbatim>\<open>json.loads(result.stdout)\<close>.\<close>

definition loads_stdout :: "'f world \<Rightarrow> proc_result \<Rightarrow> exn + 'f json" where
  "loads_stdout W result =
     (case stdout result of None \<Rightarrow> Inl TypeError | Some out \<Rightarrow> json_loads W out)"

definition get_video_info :: "wrapper \<Rightarrow> 'f world \<Rightarrow> string \<Rightarrow> 'f video_info act" where
  "get_video_info self W video_path =
     (if \<not> path_exists W video_path then
        raise (ValueError (Some (''Video file does not exist: '' @ video_path)))
      else
        let args = [PStr ''-v'', PStr ''quiet'', PStr ''-print_format'', PStr ''json'',
                    PStr ''-show_format'', PStr ''-show_streams'', PStr video_path]
        in try_except
             (bnd (execute_ffprobe_command self W args \<lparr>capture_output = True, check = True\<rparr>)
                (\<lambda>result.
              bnd (lift (loads_stdout W result)) (\<lambda>data.
              lift (extract_info (floats W) data))))
             (probe_handler W))"

text \<open>\<^verbatim>\<open>get_stream_info\<close>; \<open>stream_type\<close> is \<^verbatim>\<open>None\<close> or a string.\<close>

definition get_stream_info ::
  "wrapper \<Rightarrow> 'f world \<Rightarrow> string \<Rightarrow> string option \<Rightarrow> 'f json act" where
  "get_stream_info self W media_path stream_type =
     (if \<not> path_exists W media_path then
        raise (ValueError (Some (''Media file does not exist: '' @ media_path)))
      else
        let args = [PStr ''-v'', PStr ''quiet'', PStr ''-print_format'', PStr ''json'',
                    PStr ''-show_streams''];
            args = (case stream_type of
                      None \<Rightarrow> args
                    | Some t \<Rightarrow> (case t of [] \<Rightarrow> args
                                 | c # cs \<Rightarrow> args @ [PStr ''-select_streams'', PStr [c]]));
            args = args @ [PStr media_path]
        in try_except
             (bnd (execute_ffprobe_command self W args \<lparr>capture_output = True, check = True\<rparr>)
                (\<lambda>result.
              bnd (lift (loads_stdout W result)) (\<lambda>data.
              lift (obj_get data ''streams'' (JArr [])))))
             (probe_handler W))"

section \<open>The catalogue of encoders and decoders\<close>

text \<open>
  One turn of the loop over the lines of a listing (lines 350-358 and 365-372): the state
  is the flag and the list of names so far.
\<close>

definition listing_step :: "bool \<times> string list \<Rightarrow> string \<Rightarrow> bool \<times> string list" where
  "listing_step st line =
     (case st of (in_list, names) \<Rightarrow>
        if py_startswith (py_strip line) ''------'' then (True, names)
        else if in_list \<and> py_strip line \<noteq> [] then
          (let parts = py_split line in
           if length parts \<ge> 2 then (in_list, names @ [parts ! 1]) else (in_list, names))
        else (in_list, names))"

definition parse_listing :: "string \<Rightarrow> string list" where
  "parse_listing out = snd (foldl listing_step (False, []) (py_split_on CHR 0x0A out))"

record formats =
  encoders :: "string list"
  decoders :: "string list"

text \<open>One of the two halves of the \<^verbatim>\<open>try\<close> block: run the listing and parse it.\<close>

definition list_names :: "wrapper \<Rightarrow> 'f world \<Rightarrow> string \<Rightarrow> string list act" where
  "list_names self W flag =
     bnd (execute_ffmpeg_command self W [PStr flag] \<lparr>capture_output = True, check = False\<rparr>)
       (\<lambda>result.
        if returncode result = 0 then
          (case stdout result of
             None \<Rightarrow> raise AttributeError
           | Some out \<Rightarrow> ret (parse_listing out))
        else ret [])"

text \<open>
  \<^verbatim>\<open>get_media_formats\<close>. The dictionary \<^verbatim>\<open>formats\<close> is filled in place, so an exception in
  the second half leaves the encoders of the first half in the result.
\<close>

definition get_media_formats :: "wrapper \<Rightarrow> 'f world \<Rightarrow> formats act" where
  "get_media_formats self W =
     (let formats = \<lparr>encoders = [], decoders = []\<rparr>;
          handler = (\<lambda>fm e. bnd (logger ERROR (''Failed to get format information: '' @ exn_str W e))
                               (\<lambda>_. ret fm))
      in try_except
           (bnd (list_names self W ''-encoders'') (\<lambda>names.
            let formats = formats\<lparr>encoders := encoders formats @ names\<rparr> in
            try_except
              (bnd (list_names self W ''-decoders'') (\<lambda>names.
               ret (formats\<lparr>decoders := decoders formats @ names\<rparr>)))
              (handler formats)))
           (handler formats))"

section \<open>Vocabulary of the theorems\<close>

text \<open>
  The definitions of this section are not code of the wrapper: they name what the
  theorems below talk about.
\<close>

text \<open>The command line the synchronous FFmpeg executor runs for a vector of strings.\<close>

definition ffmpeg_cmd :: "wrapper \<Rightarrow> string list \<Rightarrow> string list" where
  "ffmpeg_cmd self args =
     ffmpeg_path self # args @
     (if max_threads self > 0 then [''-threads'', str_int (max_threads self)] else [])"

text \<open>The result object of a child that exited.\<close>

definition completed :: "run_kwargs \<Rightarrow> int \<Rightarrow> string \<Rightarrow> string \<Rightarrow> proc_result" where
  "completed kw rc out err =
     \<lparr>returncode = rc,
      stdout = (if capture_output kw then Some out else None),
      stderr = (if capture_output kw then Some err else None)\<rparr>"

text \<open>The error records written for a result object.\<close>

definition failure_lines :: "string \<Rightarrow> proc_result \<Rightarrow> (level \<times> string) list" where
  "failure_lines tool r =
     (if returncode r \<noteq> 0 then
        (ERROR, tool @ '' command failed with return code '' @ str_int (returncode r)) #
        (case stderr r of
           None \<Rightarrow> []
         | Some err \<Rightarrow> if err \<noteq> [] then [(ERROR, tool @ '' stderr: '' @ err)] else [])
      else [])"

text \<open>
  With the progress executor: the lines the monitoring thread read and the characters its
  reader buffered, the texts the callback was called with, and the result object of a
  child that exited (its diagnostic text is what the monitoring thread left).
\<close>

definition monitor_took :: "'f world \<Rightarrow> string list \<Rightarrow> bool \<Rightarrow> nat \<times> nat" where
  "monitor_took W cmd cb = (if cb then monitor_reads W cmd else (0, 0))"

definition progress_calls :: "'f world \<Rightarrow> string list \<Rightarrow> bool \<Rightarrow> string \<Rightarrow> string list" where
  "progress_calls W cmd cb err =
     map (\<lambda>line. ''FFmpeg: '' @ py_strip line)
       (filter (py_contains ''time='') (take (fst (monitor_took W cmd cb)) (read_lines err)))"

definition collected ::
  "'f world \<Rightarrow> string list \<Rightarrow> bool \<Rightarrow> int \<Rightarrow> string \<Rightarrow> string \<Rightarrow> proc_result" where
  "collected W cmd cb rc out err =
     \<lparr>returncode = rc, stdout = Some out,
      stderr = Some (drop (snd (monitor_took W cmd cb))
                  (concat (drop (fst (monitor_took W cmd cb)) (read_lines err))))\<rparr>"

text \<open>The flag pair a codec value contributes, and the flag pairs of the other options.\<close>

definition codec_flag :: "string \<Rightarrow> pyval \<Rightarrow> pyval list" where
  "codec_flag name v = (if truthy v then [PStr name, v] else [])"

definition option_flags :: "(string \<times> pyval) list \<Rightarrow> pyval list" where
  "option_flags options =
     concat (map (\<lambda>kv. if snd kv = PNone then []
                        else [PStr (''-'' @ fst kv), PStr (py_str (snd kv))]) options)"

definition other_options :: "(string \<times> pyval) list \<Rightarrow> (string \<times> pyval) list" where
  "other_options options =
     filter (\<lambda>kv. fst kv \<noteq> ''vcodec'' \<and> fst kv \<noteq> ''acodec'') options"

text \<open>The arguments of the three probe commands.\<close>

definition info_args :: "string \<Rightarrow> string list" where
  "info_args path =
     [''-v'', ''quiet'', ''-print_format'', ''json'', ''-show_format'', ''-show_streams'', path]"

definition validate_args :: "string \<Rightarrow> string list" where
  "validate_args path =
     [''-v'', ''error'', ''-show_entries'', ''format=duration'', ''-of'', ''csv=p=0'', path]"

definition streams_args :: "string option \<Rightarrow> string \<Rightarrow> string list" where
  "streams_args stream_type path =
     [''-v'', ''quiet'', ''-print_format'', ''json'', ''-show_streams''] @
     (case stream_type of
        None \<Rightarrow> []
      | Some t \<Rightarrow> (case t of [] \<Rightarrow> [] | c # cs \<Rightarrow> [''-select_streams'', [c]])) @
     [path]"

text \<open>A stream is a dictionary whose \<^verbatim>\<open>codec_type\<close> is the given string.\<close>

definition is_kind :: "string \<Rightarrow> 'f json \<Rightarrow> bool" where
  "is_kind k stream = (obj_get stream ''codec_type'' JNull = Inr (JStr k))"

text \<open>A field of a stream, \<open>JNull\<close> when it is absent.\<close>

definition field :: "'f json \<Rightarrow> string \<Rightarrow> 'f json" where
  "field stream k = (case stream of JObj m \<Rightarrow> dict_get m k JNull | _ \<Rightarrow> JNull)"

text \<open>A separator line of a listing, as the loop of \<^verbatim>\<open>get_media_formats\<close> tests it.\<close>

definition is_separator :: "string \<Rightarrow> bool" where
  "is_separator line = py_startswith (py_strip line) ''------''"

text \<open>The name a line of the table contributes: its second token, when it has one.\<close>

definition second_token :: "string \<Rightarrow> string list" where
  "second_token line =
     (if py_strip line \<noteq> [] \<and> length (py_split line) \<ge> 2 then [py_split line ! 1] else [])"

text \<open>
  The format names as the specification words them: the second whitespace-delimited
  token of every non-blank line that follows the first separator line.
\<close>

definition claimed_listing_names :: "string \<Rightarrow> string list" where
  "claimed_listing_names out =
     concat (map second_token
       (tl (dropWhile (\<lambda>l. \<not> is_separator l) (py_split_on CHR 0x0A out))))"

text \<open>A text from its lines.\<close>

definition unlines :: "string list \<Rightarrow> string" where
  "unlines ls = py_join [CHR 0x0A] ls"

text \<open>
  The claim's rule for a codec. First the setting the framework holds under a key, when
  the lookup yields one: none without a provider, none for a key the dictionary lacks,
  none when the provider's lookup raises. Then the codec resolved: the per-call override
  when the option is given, else the setting, else the fixed default.
\<close>

definition held_setting :: "settings_provider \<Rightarrow> string \<Rightarrow> string \<Rightarrow> pyval option" where
  "held_setting p key fixed =
     (case p of
        NoProvider \<Rightarrow> None
      | DictProvider m \<Rightarrow> map_of m key
      | CustomProvider f \<Rightarrow> (case f key (PStr fixed) of Inr v \<Rightarrow> Some v | Inl e \<Rightarrow> None))"

definition resolved_codec ::
  "settings_provider \<Rightarrow> (string \<times> pyval) list \<Rightarrow> string \<Rightarrow> string \<Rightarrow> string \<Rightarrow> pyval" where
  "resolved_codec p options opt key fixed =
     (case map_of options opt of
        Some v \<Rightarrow> v
      | None \<Rightarrow> (case held_setting p key fixed of Some v \<Rightarrow> v | None \<Rightarrow> PStr fixed))"

text \<open>
  A lookup that fails, if it fails, as a missing provider or a missing key does: with
  \<^verbatim>\<open>AttributeError\<close> or \<^verbatim>\<open>KeyError\<close>.
\<close>

definition lookup_quiet :: "settings_provider \<Rightarrow> string \<Rightarrow> string \<Rightarrow> bool" where
  "lookup_quiet p key fixed =
     (case p of
        CustomProvider f \<Rightarrow>
          (case f key (PStr fixed) of
             Inl e \<Rightarrow> e = AttributeError \<or> e = KeyError
           | Inr v \<Rightarrow> True)
      | _ \<Rightarrow> True)"

text \<open>
  A codec value that can stand in a command line: a text, or a value that counts as
  false, for which the flag is left out. The words a codec value and the other options
  put on the command line.
\<close>

definition text_or_falsy :: "pyval \<Rightarrow> bool" where
  "text_or_falsy v = (case v of PStr t \<Rightarrow> True | _ \<Rightarrow> \<not> truthy v)"

definition codec_words :: "string \<Rightarrow> pyval \<Rightarrow> string list" where
  "codec_words name v = (case v of PStr t \<Rightarrow> (if t = [] then [] else [name, t]) | _ \<Rightarrow> [])"

definition option_words :: "(string \<times> pyval) list \<Rightarrow> string list" where
  "option_words options =
     concat (map (\<lambda>kv. if snd kv = PNone then [] else [''-'' @ fst kv, py_str (snd kv)])
               options)"


section \<open>Fixtures of the worked examples\<close>

text \<open>
  An instance of the float operations for the examples: exact rational arithmetic,
  reading decimal integer literals only, with \<^verbatim>\<open>round(x, 2)\<close> rounding half to even. On
  the small integers of the examples it computes what the interpreter's doubles do.
\<close>

definition round2_exact :: "rat \<Rightarrow> rat" where
  "round2_exact x =
     (let y = x * 100; n = \<lfloor>y\<rfloor>; r = y - of_int n
      in of_int (if r < 1 / 2 then n else if 1 / 2 < r then n + 1
                 else if even n then n else n + 1) / 100)"

definition exact_floats :: "rat float_ops" where
  "exact_floats =
     \<lparr>f_zero = 0,
      f_of_str = (\<lambda>s. map_option of_int (py_int 4300 s)),
      f_of_int = (\<lambda>i. Some (of_int i)),
      f_trunc = (\<lambda>x. Inr (if 0 \<le> x then \<lfloor>x\<rfloor> else \<lceil>x\<rceil>)),
      f_is_zero = (\<lambda>x. x = 0),
      f_quot = (\<lambda>x y. x / y),
      f_round2 = round2_exact,
      int_max_str_digits = 4300\<rparr>"

text \<open>
  A world in which every path exists or none does, every child process has the same
  fate and the JSON parser has one answer; no path has a directory part, and \<^verbatim>\<open>str(e)\<close>
  is a fixed text.
\<close>

definition example_world :: "bool \<Rightarrow> outcome \<Rightarrow> exn + rat json \<Rightarrow> rat world" where
  "example_world ex oc parsed =
     \<lparr>path_exists = (\<lambda>p. ex), dirname = (\<lambda>p. []), makedirs = (\<lambda>d. None),
      spawn = (\<lambda>cmd. oc), monitor_reads = (\<lambda>cmd. (1, 0)), json_loads = (\<lambda>t. parsed),
      exn_str = (\<lambda>e. ''failure''),
      floats = exact_floats\<rparr>"

text \<open>The wrapper over a framework with empty settings, and the state before a call.\<close>

definition example_wrapper :: wrapper where
  "example_wrapper =
     \<lparr>framework_settings = DictProvider [], ffmpeg_path = ''ffmpeg.exe'',
      ffprobe_path = ''ffprobe.exe'', max_threads = 4,
      default_video_codec = ''libx264'', default_audio_codec = ''aac''\<rparr>"

definition no_effects :: effects where
  "no_effects = \<lparr>logged = [], spawned = [], made_dirs = [], notified = []\<rparr>"

text \<open>Four streams: two video streams, then two audio streams.\<close>

definition video_hd :: "rat json" where
  "video_hd = JObj [(''codec_type'', JStr ''video''), (''width'', JInt 1920),
     (''height'', JInt 1080), (''codec_name'', JStr ''h264''), (''r_frame_rate'', JStr ''30/1'')]"

definition video_sd :: "rat json" where
  "video_sd = JObj [(''codec_type'', JStr ''video''), (''width'', JInt 640),
     (''height'', JInt 360), (''codec_name'', JStr ''mpeg4''), (''r_frame_rate'', JStr ''25/1'')]"

definition audio_aac :: "rat json" where
  "audio_aac = JObj [(''codec_type'', JStr ''audio''), (''codec_name'', JStr ''aac'')]"

definition audio_mp3 :: "rat json" where
  "audio_mp3 = JObj [(''codec_type'', JStr ''audio''), (''codec_name'', JStr ''mp3'')]"

definition probe_doc :: "rat json list \<Rightarrow> rat json" where
  "probe_doc streams = JObj [(''streams'', JArr streams)]"

text \<open>
  Two listings in the layout of \<^verbatim>\<open>ffmpeg -encoders\<close>: a legend, the separator line and
  the table; the second has a table line that itself begins with six dashes.
\<close>

definition listing_text :: string where
  "listing_text = unlines [''Encoders:'', '' V..... = Video'', '' ------'',
     '' V..... libx264 H.264'', [], '' A..... aac AAC'']"

definition dashed_listing_text :: string where
  "dashed_listing_text = unlines [''Encoders:'', '' ------'', '' ------ x'',
     '' V..... libx264 H.264'']"




text \<open>A settings object whose every lookup raises \<open>KeyError\<close>.\<close>

definition keyless_provider :: settings_provider where
  "keyless_provider = CustomProvider (\<lambda>key d. Inl KeyError)"

section \<open>Shared lemmas\<close>

lemma ebind_Inr: "ebind (Inr x) f = f x"
  by (simp add: ebind_def)

lemma str_items_append:
  "str_items (map PStr xs @ ys) = ebind (str_items ys) (\<lambda>zs. Inr (xs @ zs))"
  by (induction xs) (simp_all add: ebind_def split: sum.splits)

lemma str_items_PStr: "str_items (map PStr xs) = Inr xs"
  using str_items_append [of xs "[]"] by (simp add: ebind_Inr)

lemma log_failure_eq:
  "log_failure tool r s = (Ok (), s\<lparr>logged := logged s @ failure_lines tool r\<rparr>)"
  by (simp add: log_failure_def failure_lines_def bnd_def logger_def ret_def
      split: option.splits)

text \<open>The three executors share their \<^verbatim>\<open>try\<close> block; this is what it does.\<close>

lemma run_try:
  "try_except
     (bnd (subprocess_run W cmd kw) (\<lambda>result.
      bnd (log_failure tool result) (\<lambda>_. ret result)))
     (\<lambda>e. bnd (logger ERROR (msg e)) (\<lambda>_. raise e)) s =
   (case spawn W cmd of
      Launch_fails e \<Rightarrow>
        (Raise e, s\<lparr>logged := logged s @ [(ERROR, msg e)], spawned := spawned s @ [cmd]\<rparr>)
    | Never_exits \<Rightarrow> (Hang, s\<lparr>spawned := spawned s @ [cmd]\<rparr>)
    | Exits rc out err \<Rightarrow>
        if check kw \<and> rc \<noteq> 0 then
          (Raise (CalledProcessError rc cmd),
           s\<lparr>logged := logged s @ [(ERROR, msg (CalledProcessError rc cmd))],
             spawned := spawned s @ [cmd]\<rparr>)
        else
          (Ok (completed kw rc out err),
           s\<lparr>logged := logged s @ failure_lines tool (completed kw rc out err),
             spawned := spawned s @ [cmd]\<rparr>))"
  by (auto simp: try_except_def bnd_def subprocess_run_def log_failure_eq ret_def raise_def
      logger_def completed_def Let_def split: outcome.splits)

lemma execute_ffmpeg_command_eq:
  "execute_ffmpeg_command self W (map PStr args) kw s =
     try_except
       (bnd (subprocess_run W (ffmpeg_cmd self args) kw) (\<lambda>result.
        bnd (log_failure ''FFmpeg'' result) (\<lambda>_. ret result)))
       (\<lambda>e. bnd (logger ERROR (''FFmpeg command failed: '' @ exn_str W e)) (\<lambda>_. raise e))
       (s\<lparr>logged := logged s @
           [(DEBUG, ''Executing FFmpeg command: '' @ py_join '' '' (ffmpeg_cmd self args))]\<rparr>)"
  by (simp add: execute_ffmpeg_command_def ffmpeg_cmd_def Let_def str_items_append
      str_items_PStr ebind_Inr bnd_def lift_def ret_def logger_def)

lemma popen_try:
  "try_except
     (bnd (popen_monitored W cmd cb) (\<lambda>result.
      bnd (log_failure tool result) (\<lambda>_. ret result)))
     (\<lambda>e. bnd (logger ERROR (msg e)) (\<lambda>_. raise e)) s =
   (case spawn W cmd of
      Launch_fails e \<Rightarrow>
        (Raise e, s\<lparr>logged := logged s @ [(ERROR, msg e)], spawned := spawned s @ [cmd]\<rparr>)
    | Never_exits \<Rightarrow> (Hang, s\<lparr>spawned := spawned s @ [cmd]\<rparr>)
    | Exits rc out err \<Rightarrow>
        (Ok (collected W cmd cb rc out err),
         s\<lparr>logged := logged s @ failure_lines tool (collected W cmd cb rc out err),
           spawned := spawned s @ [cmd],
           notified := notified s @ progress_calls W cmd cb err\<rparr>))"
  by (auto simp: try_except_def bnd_def popen_monitored_def log_failure_eq ret_def raise_def
      logger_def collected_def progress_calls_def monitor_took_def Let_def
      split: outcome.splits prod.splits)

lemma execute_ffmpeg_with_progress_eq:
  "execute_ffmpeg_with_progress self W (map PStr args) cb s =
     try_except
       (bnd (popen_monitored W (ffmpeg_cmd self args @ [''-progress'', ''pipe:2'']) cb)
          (\<lambda>result.
        bnd (log_failure ''FFmpeg'' result) (\<lambda>_. ret result)))
       (\<lambda>e. bnd (logger ERROR (''FFmpeg command failed: '' @ exn_str W e)) (\<lambda>_. raise e))
       (s\<lparr>logged := logged s @
           [(DEBUG, ''Executing FFmpeg command with progress: '' @
                    py_join '' '' (ffmpeg_cmd self args @ [''-progress'', ''pipe:2'']))]\<rparr>)"
  by (simp add: execute_ffmpeg_with_progress_def ffmpeg_cmd_def Let_def str_items_append
      str_items_PStr ebind_Inr bnd_def lift_def ret_def logger_def)

lemma execute_ffprobe_command_eq:
  "execute_ffprobe_command self W (map PStr args) kw s =
     try_except
       (bnd (subprocess_run W (ffprobe_path self # args) kw) (\<lambda>result.
        bnd (log_failure ''FFprobe'' result) (\<lambda>_. ret result)))
       (\<lambda>e. bnd (logger ERROR (''FFprobe command failed: '' @ exn_str W e)) (\<lambda>_. raise e))
       (s\<lparr>logged := logged s @
           [(DEBUG, ''Executing FFprobe command: '' @ py_join '' '' (ffprobe_path self # args))]\<rparr>)"
  by (simp add: execute_ffprobe_command_def Let_def str_items_append
      str_items_PStr ebind_Inr bnd_def lift_def ret_def logger_def)

lemma spawned_run_try:
  "spawned (snd (try_except
     (bnd (subprocess_run W cmd kw) (\<lambda>result.
      bnd (log_failure tool result) (\<lambda>_. ret result)))
     (\<lambda>e. bnd (logger ERROR (msg e)) (\<lambda>_. raise e)) s)) = spawned s @ [cmd]"
  by (simp add: run_try split: outcome.splits)

lemma spawned_execute_ffmpeg_command:
  "spawned (snd (execute_ffmpeg_command self W (map PStr args) kw s)) =
     spawned s @ [ffmpeg_cmd self args]"
  by (simp add: execute_ffmpeg_command_eq spawned_run_try)

lemma spawned_execute_ffmpeg_with_progress:
  "spawned (snd (execute_ffmpeg_with_progress self W (map PStr args) cb s)) =
     spawned s @ [ffmpeg_cmd self args @ [''-progress'', ''pipe:2'']]"
  by (simp add: execute_ffmpeg_with_progress_eq popen_try split: outcome.splits)

lemma spawned_execute_ffprobe_command:
  "spawned (snd (execute_ffprobe_command self W (map PStr args) kw s)) =
     spawned s @ [ffprobe_path self # args]"
  by (simp add: execute_ffprobe_command_eq spawned_run_try)

lemma foldl_option_flags:
  "foldl (\<lambda>args (key, v).
       if v \<noteq> PNone then args @ [PStr (''-'' @ key), PStr (py_str v)] else args) a options
   = a @ option_flags options"
  by (induction options arbitrary: a) (auto simp: option_flags_def)

lemma map_of_filter_other:
  "k' \<noteq> k \<Longrightarrow> map_of (filter (\<lambda>kv. fst kv \<noteq> k) m) k' = map_of m k'"
  by (induction m) auto

lemma convert_args_eq:
  assumes "default_codec (framework_settings self) ''default_video_codec'' ''libx264'' = Inr dv"
      and "default_codec (framework_settings self) ''default_audio_codec'' ''aac'' = Inr da"
  shows "convert_args self i out options =
     Inr ([PStr ''-i'', PStr i] @ codec_flag ''-vcodec'' (dict_get options ''vcodec'' dv) @
          codec_flag ''-acodec'' (dict_get options ''acodec'' da) @
          option_flags (other_options options) @ [PStr ''-y'', PStr out])"
proof -
  have a: "dict_get (filter (\<lambda>kv. fst kv \<noteq> ''vcodec'') options) ''acodec'' da =
      dict_get options ''acodec'' da"
    by (simp add: dict_get_def map_of_filter_other)
  show ?thesis
    by (simp add: convert_args_def assms ebind_Inr pop_option_def Let_def a
        foldl_option_flags codec_flag_def other_options_def)
qed

lemma default_codec_cases:
  "default_codec NoProvider key fixed = Inr (PStr fixed)"
  "default_codec (DictProvider m) key fixed =
     Inr (case map_of m key of Some v \<Rightarrow> v | None \<Rightarrow> PStr fixed)"
  "f key (PStr fixed) = Inl KeyError \<Longrightarrow> default_codec (CustomProvider f) key fixed = Inr (PStr fixed)"
  "f key (PStr fixed) = Inl AttributeError \<Longrightarrow>
     default_codec (CustomProvider f) key fixed = Inr (PStr fixed)"
  "f key (PStr fixed) = Inr v \<Longrightarrow> default_codec (CustomProvider f) key fixed = Inr v"
  by (simp_all add: default_codec_def dict_get_def)

lemma ensure_output_dir_spawned:
  "spawned (snd (ensure_output_dir W out s)) = spawned s"
  by (simp add: ensure_output_dir_def Let_def split: option.splits)

lemma convert_video_run:
  assumes "path_exists W i"
      and "ensure_output_dir W out s = (Ok (), s1)"
      and "convert_args self i out options = Inr (map PStr xs)"
  shows "convert_video self W i out cb options s =
     (if cb then execute_ffmpeg_with_progress self W (map PStr xs) True s1
      else execute_ffmpeg_command self W (map PStr xs) \<lparr>capture_output = True, check = False\<rparr> s1)"
  using assms by (simp add: convert_video_def bnd_def lift_def ret_def)

lemma map_PStr_snoc2:
  assumes "map PStr xs = pre @ [PStr a, PStr b]"
  shows "\<exists>ys. xs = ys @ [a, b]"
proof -
  from assms obtain us vs where uv: "xs = us @ vs" "map PStr vs = [PStr a, PStr b]"
    by (auto simp: map_eq_append_conv)
  then have "vs = [a, b]" by (auto simp: map_eq_Cons_conv)
  with uv show ?thesis by blast
qed

lemma convert_args_suffix:
  assumes "convert_args self i out options = Inr args"
  shows "\<exists>pre. args = pre @ [PStr ''-y'', PStr out]"
  using assms
  by (auto simp: convert_args_def ebind_def Let_def pop_option_def split: sum.splits)


lemmas example_defs = example_wrapper_def example_world_def no_effects_def
lemmas str_int_eval = str_int_def str_nat.simps digit_char_def

lemma execute_ffprobe_command_outcome:
  "execute_ffprobe_command self W (map PStr args) kw s =
     (let cmd = ffprobe_path self # args;
          s1 = s\<lparr>logged := logged s @
                 [(DEBUG, ''Executing FFprobe command: '' @ py_join '' '' cmd)]\<rparr> in
      case spawn W cmd of
        Launch_fails e \<Rightarrow>
          (Raise e,
           s1\<lparr>logged := logged s1 @ [(ERROR, ''FFprobe command failed: '' @ exn_str W e)],
              spawned := spawned s @ [cmd]\<rparr>)
      | Never_exits \<Rightarrow> (Hang, s1\<lparr>spawned := spawned s @ [cmd]\<rparr>)
      | Exits rc out err \<Rightarrow>
          if check kw \<and> rc \<noteq> 0 then
            (Raise (CalledProcessError rc cmd),
             s1\<lparr>logged := logged s1 @
                   [(ERROR, ''FFprobe command failed: '' @ exn_str W (CalledProcessError rc cmd))],
                spawned := spawned s @ [cmd]\<rparr>)
          else
            (Ok (completed kw rc out err),
             s1\<lparr>logged := logged s1 @ failure_lines ''FFprobe'' (completed kw rc out err),
                spawned := spawned s @ [cmd]\<rparr>))"
  unfolding execute_ffprobe_command_eq run_try
  by (auto simp: Let_def split: outcome.splits)

lemma execute_ffmpeg_command_outcome:
  "execute_ffmpeg_command self W (map PStr args) kw s =
     (let cmd = ffmpeg_cmd self args;
          s1 = s\<lparr>logged := logged s @
                 [(DEBUG, ''Executing FFmpeg command: '' @ py_join '' '' cmd)]\<rparr> in
      case spawn W cmd of
        Launch_fails e \<Rightarrow>
          (Raise e,
           s1\<lparr>logged := logged s1 @ [(ERROR, ''FFmpeg command failed: '' @ exn_str W e)],
              spawned := spawned s @ [cmd]\<rparr>)
      | Never_exits \<Rightarrow> (Hang, s1\<lparr>spawned := spawned s @ [cmd]\<rparr>)
      | Exits rc out err \<Rightarrow>
          if check kw \<and> rc \<noteq> 0 then
            (Raise (CalledProcessError rc cmd),
             s1\<lparr>logged := logged s1 @
                   [(ERROR, ''FFmpeg command failed: '' @ exn_str W (CalledProcessError rc cmd))],
                spawned := spawned s @ [cmd]\<rparr>)
          else
            (Ok (completed kw rc out err),
             s1\<lparr>logged := logged s1 @ failure_lines ''FFmpeg'' (completed kw rc out err),
                spawned := spawned s @ [cmd]\<rparr>))"
  unfolding execute_ffmpeg_command_eq run_try
  by (auto simp: Let_def split: outcome.splits)

lemma validate_media_file_eq:
  "validate_media_file self W p s =
     try_except
       (bnd (execute_ffprobe_command self W (map PStr (validate_args p))
               \<lparr>capture_output = True, check = False\<rparr>)
          (\<lambda>result. ret (returncode result = 0)))
       (\<lambda>e. ret False) s"
  by (simp add: validate_media_file_def validate_args_def)

lemma validate_media_file_outcome:
  "validate_media_file self W p s =
     (let cmd = ffprobe_path self # validate_args p;
          s1 = s\<lparr>logged := logged s @
                 [(DEBUG, ''Executing FFprobe command: '' @ py_join '' '' cmd)]\<rparr> in
      case spawn W cmd of
        Launch_fails e \<Rightarrow>
          (Ok False,
           s1\<lparr>logged := logged s1 @ [(ERROR, ''FFprobe command failed: '' @ exn_str W e)],
              spawned := spawned s @ [cmd]\<rparr>)
      | Never_exits \<Rightarrow> (Hang, s1\<lparr>spawned := spawned s @ [cmd]\<rparr>)
      | Exits rc out err \<Rightarrow>
          (Ok (rc = 0),
           s1\<lparr>logged := logged s1 @
                 failure_lines ''FFprobe''
                   (completed \<lparr>capture_output = True, check = False\<rparr> rc out err),
              spawned := spawned s @ [cmd]\<rparr>))"
  unfolding validate_media_file_eq
  by (simp add: try_except_def bnd_def execute_ffprobe_command_outcome ret_def completed_def
      Let_def split: outcome.splits)

lemma map_of_filter_keep:
  "(\<And>v. P (k, v)) \<Longrightarrow> map_of (filter P m) k = map_of m k"
  by (induction m) auto

lemma option_flags_drop_None:
  "option_flags (filter (\<lambda>kv. (snd kv \<noteq> PNone \<or> Q kv) \<and> \<not> Q kv) options) =
   option_flags (filter (\<lambda>kv. \<not> Q kv) options)"
  by (induction options) (auto simp: option_flags_def)

lemma create_proxy_eq:
  "create_proxy self W i out resolution quality =
     convert_video self W i out False
       [(''vf'', PStr (''scale='' @
           (if resolution = ''720p'' then ''1280x720''
            else if resolution = ''1080p'' then ''1920x1080''
            else if resolution = ''480p'' then ''854x480'' else resolution))),
        (''crf'', PStr (if quality = ''fast'' then ''28''
                        else if quality = ''slow'' then ''18'' else ''23'')),
        (''preset'', PStr (if quality = ''fast'' then ''fast''
                           else if quality = ''slow'' then ''slow'' else ''medium''))]"
  by (simp add: create_proxy_def resolution_map_def quality_map_def dict_get_def)

lemmas run_defs = convert_video_def ensure_output_dir_def convert_args_def default_codec_def
  dict_get_def pop_option_def ebind_def execute_ffmpeg_command_def
  execute_ffmpeg_with_progress_def execute_ffprobe_command_def subprocess_run_def
  popen_monitored_def
  log_failure_def bnd_def lift_def ret_def raise_def logger_def try_except_def






lemma process_stream_video_eq:
  assumes "dict_get m ''codec_type'' JNull = JStr ''video''"
  shows "process_stream F info (JObj m) =
     ebind (frame_rate F (JObj m)) (\<lambda>rate.
       Inr (info\<lparr>width := dict_get m ''width'' JNull, height := dict_get m ''height'' JNull,
                 video_codec := dict_get m ''codec_name'' JNull,
                 fps := (case rate of Some v \<Rightarrow> Some v | None \<Rightarrow> fps info)\<rparr>))"
  using assms
  by (auto simp: process_stream_def ebind_def Let_def split: sum.splits option.splits)

lemma extract_info_streams_only:
  "extract_info F (JObj [(''streams'', JArr xs)]) =
     scan_streams F \<lparr>duration = f_zero F, width = JNull, height = JNull, fps = None,
                     video_codec = JNull, audio_codec = JNull, bitrate = 0, file_size = 0\<rparr> xs"
  by (simp add: extract_info_def ebind_Inr dict_get_def)

lemmas py_int_eval = py_int_def int_strip_def int_isspace_def over_digit_limit_def is_digit_def
  digit_val_def Let_def

lemma exact_floats_simps:
  "f_zero exact_floats = 0"
  "f_of_str exact_floats t = map_option of_int (py_int 4300 t)"
  "int_max_str_digits exact_floats = 4300"
  "f_of_int exact_floats n = Some (of_int n)"
  "f_is_zero exact_floats x = (x = 0)"
  "f_quot exact_floats x y = x / y"
  "f_round2 exact_floats = round2_exact"
  by (simp_all add: exact_floats_def)

lemma scan_streams_append:
  "scan_streams F info (xs @ ys) = ebind (scan_streams F info xs) (\<lambda>j. scan_streams F j ys)"
  by (induction xs arbitrary: info) (simp_all add: ebind_def split: sum.splits)

lemma process_stream_not_video:
  assumes "process_stream F i x = Inr j" and "\<not> is_kind ''video'' x"
  shows "width j = width i \<and> height j = height i \<and> video_codec j = video_codec i \<and>
         fps j = fps i"
  using assms
  by (auto simp: process_stream_def is_kind_def ebind_def split: sum.splits if_splits)

lemma process_stream_not_audio:
  assumes "process_stream F i x = Inr j" and "\<not> is_kind ''audio'' x"
  shows "audio_codec j = audio_codec i"
  using assms
  by (auto simp: process_stream_def is_kind_def ebind_def Let_def
      split: sum.splits if_splits option.splits)

lemma is_kind_JObj:
  "is_kind k x \<Longrightarrow> \<exists>m. x = JObj m \<and> dict_get m ''codec_type'' JNull = JStr k"
  by (cases x) (simp_all add: is_kind_def)

lemma process_stream_video:
  assumes "process_stream F i x = Inr j" and "is_kind ''video'' x"
  shows "width j = field x ''width'' \<and> height j = field x ''height'' \<and>
         video_codec j = field x ''codec_name'' \<and>
         (\<exists>rate. frame_rate F x = Inr rate \<and>
                 fps j = (case rate of Some v \<Rightarrow> Some v | None \<Rightarrow> fps i))"
proof -
  from is_kind_JObj [OF assms(2)] obtain m
    where m: "x = JObj m" "dict_get m ''codec_type'' JNull = JStr ''video''"
    by blast
  from assms(1) show ?thesis
    unfolding m(1) process_stream_video_eq [OF m(2)]
    by (auto simp: ebind_def field_def split: sum.splits)
qed

lemma process_stream_audio:
  assumes "process_stream F i x = Inr j" and "is_kind ''audio'' x"
  shows "audio_codec j = field x ''codec_name''"
proof -
  from is_kind_JObj [OF assms(2)] obtain m
    where m: "x = JObj m" "dict_get m ''codec_type'' JNull = JStr ''audio''"
    by blast
  from assms(1) show ?thesis
    unfolding m(1)
    by (auto simp: process_stream_def m(2) ebind_def field_def split: sum.splits)
qed

lemma scan_streams_keeps_video:
  assumes "scan_streams F i xs = Inr j" and "list_all (\<lambda>x. \<not> is_kind ''video'' x) xs"
  shows "width j = width i \<and> height j = height i \<and> video_codec j = video_codec i"
  using assms
proof (induction xs arbitrary: i)
  case Nil
  then show ?case by simp
next
  case (Cons x xs)
  from Cons.prems(1) obtain k where k: "process_stream F i x = Inr k" "scan_streams F k xs = Inr j"
    by (auto simp: ebind_def split: sum.splits)
  from Cons.prems(2) have nv: "\<not> is_kind ''video'' x" and rest: "list_all (\<lambda>x. \<not> is_kind ''video'' x) xs"
    by simp_all
  from process_stream_not_video [OF k(1) nv] Cons.IH [OF k(2) rest] show ?case
    by simp
qed

lemma scan_streams_keeps_audio:
  assumes "scan_streams F i xs = Inr j" and "list_all (\<lambda>x. \<not> is_kind ''audio'' x) xs"
  shows "audio_codec j = audio_codec i"
  using assms
proof (induction xs arbitrary: i)
  case Nil
  then show ?case by simp
next
  case (Cons x xs)
  from Cons.prems(1) obtain k where k: "process_stream F i x = Inr k" "scan_streams F k xs = Inr j"
    by (auto simp: ebind_def split: sum.splits)
  from Cons.prems(2) have nv: "\<not> is_kind ''audio'' x" and rest: "list_all (\<lambda>x. \<not> is_kind ''audio'' x) xs"
    by simp_all
  from process_stream_not_audio [OF k(1) nv] Cons.IH [OF k(2) rest] show ?case
    by simp
qed

lemma scan_streams_keeps_fps:
  assumes "scan_streams F i xs = Inr j"
      and "list_all (\<lambda>x. \<not> is_kind ''video'' x \<or> frame_rate F x = Inr None) xs"
  shows "fps j = fps i"
  using assms
proof (induction xs arbitrary: i)
  case Nil
  then show ?case by simp
next
  case (Cons x xs)
  from Cons.prems(1) obtain k where k: "process_stream F i x = Inr k" "scan_streams F k xs = Inr j"
    by (auto simp: ebind_def split: sum.splits)
  from Cons.prems(2) have nv: "\<not> is_kind ''video'' x \<or> frame_rate F x = Inr None"
    and rest: "list_all (\<lambda>x. \<not> is_kind ''video'' x \<or> frame_rate F x = Inr None) xs"
    by simp_all
  have "fps k = fps i"
  proof (cases "is_kind ''video'' x")
    case True
    with nv have "frame_rate F x = Inr None" by simp
    with process_stream_video [OF k(1) True] show ?thesis by auto
  next
    case False
    with process_stream_not_video [OF k(1)] show ?thesis by simp
  qed
  with Cons.IH [OF k(2) rest] show ?case by simp
qed

lemma extract_info_scan:
  assumes "extract_info F (JObj doc) = Inr info"
      and "dict_get doc ''streams'' (JArr []) = JArr xs"
  shows "\<exists>i. scan_streams F i xs = Inr info"
  using assms
  by (auto simp: extract_info_def ebind_def Let_def split: sum.splits if_splits)

lemma info_args_PStr:
  "[PStr ''-v'', PStr ''quiet'', PStr ''-print_format'', PStr ''json'', PStr ''-show_format'',
    PStr ''-show_streams'', PStr p] = map PStr (info_args p)"
  by (simp add: info_args_def)

lemma get_video_info_outcome:
  assumes "path_exists W p"
      and "spawn W (ffprobe_path self # info_args p) = Exits 0 out err"
      and "json_loads W out = Inr data"
  shows "fst (get_video_info self W p s) =
     (case extract_info (floats W) data of Inl e \<Rightarrow> Raise e | Inr info \<Rightarrow> Ok info)"
  using assms
  unfolding get_video_info_def Let_def info_args_PStr
  by (simp add: try_except_def bnd_def execute_ffprobe_command_outcome completed_def
      loads_stdout_def lift_def ret_def raise_def probe_handler_def logger_def Let_def
      split: sum.splits exn.splits)

lemma example_frame_rates:
  "frame_rate exact_floats video_hd = Inr (Some 30)"
  "frame_rate exact_floats video_sd = Inr (Some 25)"
proof -
  have ints: "py_int 4300 ''1'' = Some 1" "py_int 4300 ''30'' = Some 30"
    "py_int 4300 ''25'' = Some 25"
    by (simp_all add: py_int_eval)
  have r: "round2_exact 30 = 30" "round2_exact 25 = 25"
    by (simp_all add: round2_exact_def)
  show "frame_rate exact_floats video_hd = Inr (Some 30)"
    by (simp add: video_hd_def frame_rate_def ebind_def dict_get_def py_startswith_def
        py_split_on_def of_opt_def float_div_def exact_floats_simps ints r)
  show "frame_rate exact_floats video_sd = Inr (Some 25)"
    by (simp add: video_sd_def frame_rate_def ebind_def dict_get_def py_startswith_def
        py_split_on_def of_opt_def float_div_def exact_floats_simps ints r)
qed

lemma example_probe_result:
  "fst (get_video_info example_wrapper
       (example_world True (Exits 0 ''{...}'' [])
          (Inr (probe_doc [video_hd, video_sd, audio_aac, audio_mp3])))
       ''in.mov'' no_effects) =
     Ok \<lparr>duration = 0, width = JInt 640, height = JInt 360, fps = Some 25,
         video_codec = JStr ''mpeg4'', audio_codec = JStr ''mp3'', bitrate = 0, file_size = 0\<rparr>"
proof -
  let ?W = "example_world True (Exits 0 ''{...}'' [])
          (Inr (probe_doc [video_hd, video_sd, audio_aac, audio_mp3]))"
  have w: "path_exists ?W ''in.mov''"
    "spawn ?W (ffprobe_path example_wrapper # info_args ''in.mov'') = Exits 0 ''{...}'' []"
    "json_loads ?W ''{...}'' = Inr (probe_doc [video_hd, video_sd, audio_aac, audio_mp3])"
    "floats ?W = exact_floats"
    by (simp_all add: example_world_def)
  have v: "process_stream exact_floats i video_hd =
      Inr (i\<lparr>width := JInt 1920, height := JInt 1080, video_codec := JStr ''h264'',
             fps := Some 30\<rparr>)"
    "process_stream exact_floats i video_sd =
      Inr (i\<lparr>width := JInt 640, height := JInt 360, video_codec := JStr ''mpeg4'',
             fps := Some 25\<rparr>)" for i :: "rat video_info"
    using example_frame_rates
    by (simp_all add: video_hd_def video_sd_def process_stream_def ebind_def dict_get_def)
  have a: "process_stream exact_floats i audio_aac = Inr (i\<lparr>audio_codec := JStr ''aac''\<rparr>)"
    "process_stream exact_floats i audio_mp3 = Inr (i\<lparr>audio_codec := JStr ''mp3''\<rparr>)"
    for i :: "rat video_info"
    by (simp_all add: audio_aac_def audio_mp3_def process_stream_def ebind_def dict_get_def)
  have e: "extract_info exact_floats (probe_doc [video_hd, video_sd, audio_aac, audio_mp3]) =
      Inr \<lparr>duration = 0, width = JInt 640, height = JInt 360, fps = Some 25,
           video_codec = JStr ''mpeg4'', audio_codec = JStr ''mp3'', bitrate = 0, file_size = 0\<rparr>"
    unfolding probe_doc_def extract_info_streams_only
    by (simp add: v a ebind_Inr exact_floats_simps)
  show ?thesis
    unfolding get_video_info_outcome [OF w(1) w(2) w(3)] w(4) e by simp
qed

lemma listing_step_simps:
  "listing_step (b, names) line =
     (if is_separator line then (True, names)
      else if b then (b, names @ second_token line) else (b, names))"
  by (auto simp: listing_step_def is_separator_def second_token_def Let_def)

lemma foldl_listing_in:
  "foldl listing_step (True, names) ls =
     (True, names @ concat (map (\<lambda>l. if is_separator l then [] else second_token l) ls))"
  by (induction ls arbitrary: names) (simp_all add: listing_step_simps)

lemma foldl_listing_out:
  "foldl listing_step (False, names) ls =
     (if list_ex is_separator ls
      then (True, names @ concat (map (\<lambda>l. if is_separator l then [] else second_token l)
                                   (tl (dropWhile (\<lambda>l. \<not> is_separator l) ls))))
      else (False, names))"
  by (induction ls arbitrary: names) (simp_all add: listing_step_simps foldl_listing_in)

lemma dropWhile_no_separator:
  "\<not> list_ex is_separator ls \<Longrightarrow> dropWhile (\<lambda>l. \<not> is_separator l) ls = []"
  by (induction ls) auto

lemma parse_listing_eq:
  "parse_listing out =
     concat (map (\<lambda>l. if is_separator l then [] else second_token l)
       (tl (dropWhile (\<lambda>l. \<not> is_separator l) (py_split_on CHR 0x0A out))))"
  by (simp add: parse_listing_def foldl_listing_out dropWhile_no_separator)

lemma concat_map_cong_list_all:
  "list_all (\<lambda>l. f l = g l) ls \<Longrightarrow> concat (map f ls) = concat (map g ls)"
  by (induction ls) auto

lemma list_names_outcome:
  "list_names self W flag s =
     (let cmd = ffmpeg_cmd self [flag];
          s1 = s\<lparr>logged := logged s @
                 [(DEBUG, ''Executing FFmpeg command: '' @ py_join '' '' cmd)]\<rparr> in
      case spawn W cmd of
        Launch_fails e \<Rightarrow>
          (Raise e,
           s1\<lparr>logged := logged s1 @ [(ERROR, ''FFmpeg command failed: '' @ exn_str W e)],
              spawned := spawned s @ [cmd]\<rparr>)
      | Never_exits \<Rightarrow> (Hang, s1\<lparr>spawned := spawned s @ [cmd]\<rparr>)
      | Exits rc out err \<Rightarrow>
          (Ok (if rc = 0 then parse_listing out else []),
           s1\<lparr>logged := logged s1 @
                 failure_lines ''FFmpeg''
                   (completed \<lparr>capture_output = True, check = False\<rparr> rc out err),
              spawned := spawned s @ [cmd]\<rparr>))"
proof -
  note e = execute_ffmpeg_command_outcome [of self W "[flag]", unfolded list.map]
  show ?thesis
    unfolding list_names_def
    by (simp add: bnd_def e completed_def ret_def Let_def split: outcome.splits)
qed

lemma get_media_formats_cases:
  "get_media_formats self W s =
     (case list_names self W ''-encoders'' s of
        (Raise e, s1) \<Rightarrow>
          (Ok \<lparr>encoders = [], decoders = []\<rparr>,
           s1\<lparr>logged := logged s1 @
                 [(ERROR, ''Failed to get format information: '' @ exn_str W e)]\<rparr>)
      | (Hang, s1) \<Rightarrow> (Hang, s1)
      | (Ok enc, s1) \<Rightarrow>
          (case list_names self W ''-decoders'' s1 of
             (Raise e, s2) \<Rightarrow>
               (Ok \<lparr>encoders = enc, decoders = []\<rparr>,
                s2\<lparr>logged := logged s2 @
                      [(ERROR, ''Failed to get format information: '' @ exn_str W e)]\<rparr>)
           | (Hang, s2) \<Rightarrow> (Hang, s2)
           | (Ok dec, s2) \<Rightarrow> (Ok \<lparr>encoders = enc, decoders = dec\<rparr>, s2)))"
  by (simp add: get_media_formats_def try_except_def bnd_def ret_def logger_def Let_def
      split: prod.splits res.splits)

lemmas token_eval = is_separator_def second_token_def py_strip_def py_split_def
  py_isspace_def py_startswith_def

lemma listing_text_lines:
  "py_split_on CHR 0x0A listing_text =
     [''Encoders:'', '' V..... = Video'', '' ------'', '' V..... libx264 H.264'', [],
      '' A..... aac AAC'']"
  "py_split_on CHR 0x0A dashed_listing_text =
     [''Encoders:'', '' ------'', '' ------ x'', '' V..... libx264 H.264'']"
  by (simp_all add: listing_text_def dashed_listing_text_def unlines_def py_split_on_def)

lemma example_tokens:
  "\<not> is_separator ''Encoders:''" "\<not> is_separator '' V..... = Video''"
  "is_separator '' ------''" "is_separator '' ------ x''"
  "\<not> is_separator '' V..... libx264 H.264''" "\<not> is_separator []"
  "\<not> is_separator '' A..... aac AAC''"
  "second_token '' ------'' = []" "second_token '' ------ x'' = [''x'']"
  "second_token '' V..... libx264 H.264'' = [''libx264'']" "second_token [] = []"
  "second_token '' A..... aac AAC'' = [''aac'']"
  by (simp_all add: token_eval)

lemma example_listings_parsed:
  "parse_listing listing_text = [''libx264'', ''aac'']"
  "parse_listing dashed_listing_text = [''libx264'']"
  by (simp_all add: parse_listing_eq listing_text_lines example_tokens)





lemma str_items_Inr: "str_items args = Inr xs \<Longrightarrow> args = map PStr xs"
proof (induction args arbitrary: xs)
  case Nil
  then show ?case by simp
next
  case (Cons a args)
  then show ?case
    by (cases a) (auto simp: ebind_def split: sum.splits)
qed

lemma spawned_execute_ffmpeg_command_strs:
  assumes "str_items args = Inr xs"
  shows "spawned (snd (execute_ffmpeg_command self W args kw s)) = spawned s @ [ffmpeg_cmd self xs]"
  unfolding str_items_Inr [OF assms] by (rule spawned_execute_ffmpeg_command)

text \<open>The constructor always configures four threads.\<close>

lemma constructed_wrapper:
  "FFmpegWrapper framework a b s =
     (Ok \<lparr>framework_settings = framework, ffmpeg_path = a, ffprobe_path = b, max_threads = 4,
          default_video_codec = ''libx264'', default_audio_codec = ''aac''\<rparr>,
      s\<lparr>logged := logged s @ [(INFO, ''FFmpeg path: '' @ a), (INFO, ''FFprobe path: '' @ b)]\<rparr>)"
  by (simp add: FFmpegWrapper_def bnd_def logger_def ret_def)

lemma execute_ffmpeg_with_progress_outcome:
  "execute_ffmpeg_with_progress self W (map PStr args) cb s =
     (let cmd = ffmpeg_cmd self args @ [''-progress'', ''pipe:2''];
          s1 = s\<lparr>logged := logged s @
                 [(DEBUG, ''Executing FFmpeg command with progress: '' @ py_join '' '' cmd)]\<rparr> in
      case spawn W cmd of
        Launch_fails e \<Rightarrow>
          (Raise e,
           s1\<lparr>logged := logged s1 @ [(ERROR, ''FFmpeg command failed: '' @ exn_str W e)],
              spawned := spawned s @ [cmd]\<rparr>)
      | Never_exits \<Rightarrow> (Hang, s1\<lparr>spawned := spawned s @ [cmd]\<rparr>)
      | Exits rc out err \<Rightarrow>
          (Ok (collected W cmd cb rc out err),
           s1\<lparr>logged := logged s1 @ failure_lines ''FFmpeg'' (collected W cmd cb rc out err),
              spawned := spawned s @ [cmd],
              notified := notified s @ progress_calls W cmd cb err\<rparr>))"
  unfolding execute_ffmpeg_with_progress_eq popen_try
  by (auto simp: Let_def split: outcome.splits)

lemma default_codec_resolved:
  assumes "lookup_quiet p key fixed"
  shows "default_codec p key fixed =
     Inr (case held_setting p key fixed of Some v \<Rightarrow> v | None \<Rightarrow> PStr fixed)"
proof (cases p)
  case NoProvider
  then show ?thesis by (simp add: default_codec_def held_setting_def)
next
  case (DictProvider m)
  then show ?thesis by (simp add: default_codec_def held_setting_def dict_get_def)
next
  case (CustomProvider f)
  with assms show ?thesis
    by (auto simp: default_codec_def held_setting_def lookup_quiet_def split: sum.splits)
qed

lemma codec_flag_words:
  "text_or_falsy v \<Longrightarrow> codec_flag name v = map PStr (codec_words name v)"
  by (cases v) (auto simp: text_or_falsy_def codec_flag_def codec_words_def)

lemma option_flags_words: "option_flags options = map PStr (option_words options)"
  by (induction options) (simp_all add: option_flags_def option_words_def)

lemma convert_args_resolved:
  assumes "lookup_quiet (framework_settings self) ''default_video_codec'' ''libx264''"
      and "lookup_quiet (framework_settings self) ''default_audio_codec'' ''aac''"
      and "text_or_falsy (resolved_codec (framework_settings self) options ''vcodec''
             ''default_video_codec'' ''libx264'')"
      and "text_or_falsy (resolved_codec (framework_settings self) options ''acodec''
             ''default_audio_codec'' ''aac'')"
  shows "convert_args self i out options =
     Inr (map PStr ([''-i'', i] @
       codec_words ''-vcodec'' (resolved_codec (framework_settings self) options ''vcodec''
          ''default_video_codec'' ''libx264'') @
       codec_words ''-acodec'' (resolved_codec (framework_settings self) options ''acodec''
          ''default_audio_codec'' ''aac'') @
       option_words (other_options options) @ [''-y'', out]))"
proof -
  have r: "dict_get options opt (case held_setting p key fixed of Some v \<Rightarrow> v | None \<Rightarrow> PStr fixed)
      = resolved_codec p options opt key fixed" for opt p key fixed
    by (simp add: dict_get_def resolved_codec_def)
  show ?thesis
    unfolding convert_args_eq [OF default_codec_resolved [OF assms(1)]
        default_codec_resolved [OF assms(2)]] r
    by (simp add: codec_flag_words [OF assms(3)] codec_flag_words [OF assms(4)]
        option_flags_words)
qed




text \<open>
  \<^verbatim>\<open>int\<close> on some literals: surrounding blanks, a sign and single underscores are read; a
  separator character that \<^verbatim>\<open>str.strip\<close> would strip, a doubled underscore and an empty
  denominator are refused.
\<close>

lemma py_int_examples:
  "py_int 4300 '' 12 '' = Some 12"
  "py_int 4300 ''-0'' = Some 0"
  "py_int 4300 ''1_000'' = Some 1000"
  "py_int 4300 [CHR 0x1F, CHR ''0''] = None"
  "py_int 4300 ''1__0'' = None"
  "py_int 4300 [] = None"
  by (simp_all add: py_int_eval)

text \<open>
  The progress executor on a child that writes a progress line and a complaint and exits
  with status 1, the monitoring thread reading one line: with a callback, the callback
  gets the progress line and the result carries the rest; without one, the result carries
  the whole diagnostic text.
\<close>

lemma progress_executor_example:
  "execute_ffmpeg_with_progress example_wrapper
     (example_world True (Exits 1 [] (unlines [''frame=1 time=00:00:01'', ''No space left'']))
        (Inl (JSONDecodeError [])))
     (map PStr [''-i'', ''in.mov'']) True no_effects =
   (Ok \<lparr>returncode = 1, stdout = Some [], stderr = Some ''No space left''\<rparr>,
    \<lparr>logged = [(DEBUG, ''Executing FFmpeg command with progress: '' @
                  ''ffmpeg.exe -i in.mov -threads 4 -progress pipe:2''),
               (ERROR, ''FFmpeg command failed with return code 1''),
               (ERROR, ''FFmpeg stderr: No space left'')],
     spawned = [[''ffmpeg.exe'', ''-i'', ''in.mov'', ''-threads'', ''4'', ''-progress'', ''pipe:2'']],
     made_dirs = [], notified = [''FFmpeg: frame=1 time=00:00:01'']\<rparr>)"
  "execute_ffmpeg_with_progress example_wrapper
     (example_world True (Exits 1 [] (unlines [''frame=1 time=00:00:01'', ''No space left'']))
        (Inl (JSONDecodeError [])))
     (map PStr [''-i'', ''in.mov'']) False no_effects =
   (Ok \<lparr>returncode = 1, stdout = Some [],
        stderr = Some (unlines [''frame=1 time=00:00:01'', ''No space left''])\<rparr>,
    \<lparr>logged = [(DEBUG, ''Executing FFmpeg command with progress: '' @
                  ''ffmpeg.exe -i in.mov -threads 4 -progress pipe:2''),
               (ERROR, ''FFmpeg command failed with return code 1''),
               (ERROR, ''FFmpeg stderr: '' @
                  unlines [''frame=1 time=00:00:01'', ''No space left''])],
     spawned = [[''ffmpeg.exe'', ''-i'', ''in.mov'', ''-threads'', ''4'', ''-progress'', ''pipe:2'']],
     made_dirs = [], notified = []\<rparr>)"
  unfolding execute_ffmpeg_with_progress_outcome
  by (simp_all add: example_defs ffmpeg_cmd_def str_int_eval Let_def collected_def
      progress_calls_def monitor_took_def failure_lines_def unlines_def read_lines_def
      py_strip_def py_isspace_def py_startswith_def)

section \<open>The claims\<close>

subsection \<open>The thread flag\<close>

text \<open>
  Claim C9. With a positive thread count, the synchronous and the progress executor hand
  to the operating system the executable path, then the caller's arguments, then
  \<^verbatim>\<open>-threads\<close> and the count; the progress executor, with or without a callback, then
  adds \<^verbatim>\<open>-progress pipe:2\<close>. In
  \<^verbatim>\<open>convert_video\<close> the thread flag therefore follows \<^verbatim>\<open>-y\<close> and the output path.
\<close>

theorem thread_flag_after_arguments:
  assumes "0 < max_threads self"
  shows "spawned (snd (execute_ffmpeg_command self W (map PStr args) kw s)) =
           spawned s @ [ffmpeg_path self # args @ [''-threads'', str_int (max_threads self)]]
       \<and> spawned (snd (execute_ffmpeg_with_progress self W (map PStr args) cb s)) =
           spawned s @ [ffmpeg_path self # args @
             [''-threads'', str_int (max_threads self), ''-progress'', ''pipe:2'']]
       \<and> (path_exists W i \<and> fst (ensure_output_dir W out s) = Ok () \<and>
            convert_args self i out options = Inr (map PStr xs) \<longrightarrow>
            (\<exists>pre. xs = pre @ [''-y'', out] \<and>
               spawned (snd (convert_video self W i out False options s)) =
                 spawned s @ [ffmpeg_path self # pre @
                   [''-y'', out, ''-threads'', str_int (max_threads self)]] \<and>
               spawned (snd (convert_video self W i out True options s)) =
                 spawned s @ [ffmpeg_path self # pre @
                   [''-y'', out, ''-threads'', str_int (max_threads self),
                    ''-progress'', ''pipe:2'']]))"
proof (intro conjI impI)
  show "spawned (snd (execute_ffmpeg_command self W (map PStr args) kw s)) =
      spawned s @ [ffmpeg_path self # args @ [''-threads'', str_int (max_threads self)]]"
    using assms by (simp add: spawned_execute_ffmpeg_command ffmpeg_cmd_def)
  show "spawned (snd (execute_ffmpeg_with_progress self W (map PStr args) cb s)) =
      spawned s @ [ffmpeg_path self # args @
        [''-threads'', str_int (max_threads self), ''-progress'', ''pipe:2'']]"
    using assms by (simp add: spawned_execute_ffmpeg_with_progress ffmpeg_cmd_def)
next
  assume h: "path_exists W i \<and> fst (ensure_output_dir W out s) = Ok () \<and>
      convert_args self i out options = Inr (map PStr xs)"
  then obtain s1 where s1: "ensure_output_dir W out s = (Ok (), s1)"
    by (cases "ensure_output_dir W out s") auto
  have sp: "spawned s1 = spawned s"
    using ensure_output_dir_spawned [of W out s] s1 by simp
  from h convert_args_suffix obtain p where "map PStr xs = p @ [PStr ''-y'', PStr out]"
    by blast
  then obtain pre where pre: "xs = pre @ [''-y'', out]"
    using map_PStr_snoc2 by blast
  have run: "convert_video self W i out cb options s =
     (if cb then execute_ffmpeg_with_progress self W (map PStr xs) True s1
      else execute_ffmpeg_command self W (map PStr xs) \<lparr>capture_output = True, check = False\<rparr> s1)"
    for cb
    using h s1 by (intro convert_video_run) auto
  have a: "spawned (snd (convert_video self W i out False options s)) =
      spawned s @ [ffmpeg_path self # xs @ [''-threads'', str_int (max_threads self)]]"
    using assms sp by (simp add: run spawned_execute_ffmpeg_command ffmpeg_cmd_def)
  have b: "spawned (snd (convert_video self W i out True options s)) =
      spawned s @ [ffmpeg_path self # xs @
        [''-threads'', str_int (max_threads self), ''-progress'', ''pipe:2'']]"
    using assms sp by (simp add: run spawned_execute_ffmpeg_with_progress ffmpeg_cmd_def)
  show "\<exists>pre. xs = pre @ [''-y'', out] \<and>
      spawned (snd (convert_video self W i out False options s)) =
        spawned s @ [ffmpeg_path self # pre @
          [''-y'', out, ''-threads'', str_int (max_threads self)]] \<and>
      spawned (snd (convert_video self W i out True options s)) =
        spawned s @ [ffmpeg_path self # pre @
          [''-y'', out, ''-threads'', str_int (max_threads self), ''-progress'', ''pipe:2'']]"
    using pre by (intro exI [of _ pre]) (simp add: a b)
qed

text \<open>Claim C9 on the example wrapper (four threads).\<close>

theorem thread_flag_after_arguments_witness:
  "spawned (snd (execute_ffmpeg_command example_wrapper
       (example_world True (Exits 0 [] []) (Inl (JSONDecodeError [])))
       (map PStr [''-version'']) \<lparr>capture_output = True, check = False\<rparr> no_effects)) =
     [[''ffmpeg.exe'', ''-version'', ''-threads'', ''4'']]
   \<and> spawned (snd (execute_ffmpeg_with_progress example_wrapper
       (example_world True (Exits 0 [] []) (Inl (JSONDecodeError [])))
       (map PStr [''-version'']) True no_effects)) =
     [[''ffmpeg.exe'', ''-version'', ''-threads'', ''4'', ''-progress'', ''pipe:2'']]
   \<and> (\<exists>pre. [''-i'', ''in.mov'', ''-vcodec'', ''libx264'', ''-acodec'', ''aac'', ''-y'', ''out.mp4'']
          = pre @ [''-y'', ''out.mp4''] \<and>
        spawned (snd (convert_video example_wrapper
          (example_world True (Exits 0 [] []) (Inl (JSONDecodeError [])))
          ''in.mov'' ''out.mp4'' False [] no_effects)) =
          [''ffmpeg.exe'' # pre @ [''-y'', ''out.mp4'', ''-threads'', ''4'']] \<and>
        spawned (snd (convert_video example_wrapper
          (example_world True (Exits 0 [] []) (Inl (JSONDecodeError [])))
          ''in.mov'' ''out.mp4'' True [] no_effects)) =
          [''ffmpeg.exe'' # pre @ [''-y'', ''out.mp4'', ''-threads'', ''4'',
             ''-progress'', ''pipe:2'']])"
proof -
  let ?W = "example_world True (Exits 0 [] []) (Inl (JSONDecodeError []))"
  have pos: "0 < max_threads example_wrapper"
    by (simp add: example_wrapper_def)
  have hyp: "path_exists ?W ''in.mov'' \<and> fst (ensure_output_dir ?W ''out.mp4'' no_effects) = Ok () \<and>
      convert_args example_wrapper ''in.mov'' ''out.mp4'' [] =
        Inr (map PStr [''-i'', ''in.mov'', ''-vcodec'', ''libx264'', ''-acodec'', ''aac'',
                       ''-y'', ''out.mp4''])"
    by (simp add: example_defs ensure_output_dir_def convert_args_def default_codec_def
        dict_get_def pop_option_def ebind_def)
  have four: "str_int (max_threads example_wrapper) = ''4''"
    by (simp add: example_wrapper_def str_int_eval)
  have paths: "ffmpeg_path example_wrapper = ''ffmpeg.exe''" "spawned no_effects = []"
    by (simp_all add: example_defs)
  show ?thesis
    using thread_flag_after_arguments [OF pos, where W = ?W and args = "[''-version'']"
        and kw = "\<lparr>capture_output = True, check = False\<rparr>" and s = no_effects
        and cb = True
        and i = "''in.mov''" and out = "''out.mp4''" and options = "[]"
        and xs = "[''-i'', ''in.mov'', ''-vcodec'', ''libx264'', ''-acodec'', ''aac'',
                   ''-y'', ''out.mp4'']"] hyp
    unfolding four paths by simp
qed


subsection \<open>Exit status and launch failures\<close>

text \<open>
  Claim C5 says that a non-zero exit status is always returned in the result object. With
  \<^verbatim>\<open>check=True\<close> among the keyword arguments, as \<^verbatim>\<open>get_video_info\<close> and
  \<^verbatim>\<open>get_stream_info\<close> pass it, the executor raises instead: here for exit status 2.
\<close>

theorem nonzero_exit_with_check_counterexample:
  "execute_ffprobe_command example_wrapper
     (example_world True (Exits 2 [] ''no such stream'') (Inl (JSONDecodeError [])))
     (map PStr [''-show_streams'', ''in.mov'']) \<lparr>capture_output = True, check = True\<rparr> no_effects =
   (Raise (CalledProcessError 2 [''ffprobe.exe'', ''-show_streams'', ''in.mov'']),
    \<lparr>logged = [(DEBUG, ''Executing FFprobe command: ffprobe.exe -show_streams in.mov''),
                (ERROR, ''FFprobe command failed: failure'')],
      spawned = [[''ffprobe.exe'', ''-show_streams'', ''in.mov'']], made_dirs = [], notified = []\<rparr>)"
  unfolding execute_ffprobe_command_eq run_try
  by (simp add: example_defs)

text \<open>
  Claim C5, amended. When the child exits with a non-zero status and the caller did not
  pass \<^verbatim>\<open>check=True\<close>, both executors return the result object with that status and the
  captured streams, after logging the status and the diagnostic text; with \<^verbatim>\<open>check=True\<close>
  the status is raised as \<open>CalledProcessError\<close>, logged and re-raised. A launch failure is
  logged and re-raised as it is.
\<close>

theorem nonzero_exit_returned_unless_checked:
  "(spawn W (ffmpeg_cmd self args) = Exits rc out err \<and> rc \<noteq> 0 \<longrightarrow>
      execute_ffmpeg_command self W (map PStr args) kw s =
        (if check kw then
           (Raise (CalledProcessError rc (ffmpeg_cmd self args)),
            s\<lparr>logged := logged s @
                 [(DEBUG, ''Executing FFmpeg command: '' @ py_join '' '' (ffmpeg_cmd self args)),
                  (ERROR, ''FFmpeg command failed: '' @
                          exn_str W (CalledProcessError rc (ffmpeg_cmd self args)))],
              spawned := spawned s @ [ffmpeg_cmd self args]\<rparr>)
         else
           (Ok \<lparr>returncode = rc,
                stdout = (if capture_output kw then Some out else None),
                stderr = (if capture_output kw then Some err else None)\<rparr>,
            s\<lparr>logged := logged s @
                 [(DEBUG, ''Executing FFmpeg command: '' @ py_join '' '' (ffmpeg_cmd self args)),
                  (ERROR, ''FFmpeg command failed with return code '' @ str_int rc)] @
                 (if capture_output kw \<and> err \<noteq> [] then [(ERROR, ''FFmpeg stderr: '' @ err)]
                  else []),
              spawned := spawned s @ [ffmpeg_cmd self args]\<rparr>)))
   \<and> (spawn W (ffprobe_path self # args) = Exits rc out err \<and> rc \<noteq> 0 \<longrightarrow>
      execute_ffprobe_command self W (map PStr args) kw s =
        (if check kw then
           (Raise (CalledProcessError rc (ffprobe_path self # args)),
            s\<lparr>logged := logged s @
                 [(DEBUG, ''Executing FFprobe command: '' @ py_join '' '' (ffprobe_path self # args)),
                  (ERROR, ''FFprobe command failed: '' @
                          exn_str W (CalledProcessError rc (ffprobe_path self # args)))],
              spawned := spawned s @ [ffprobe_path self # args]\<rparr>)
         else
           (Ok \<lparr>returncode = rc,
                stdout = (if capture_output kw then Some out else None),
                stderr = (if capture_output kw then Some err else None)\<rparr>,
            s\<lparr>logged := logged s @
                 [(DEBUG, ''Executing FFprobe command: '' @ py_join '' '' (ffprobe_path self # args)),
                  (ERROR, ''FFprobe command failed with return code '' @ str_int rc)] @
                 (if capture_output kw \<and> err \<noteq> [] then [(ERROR, ''FFprobe stderr: '' @ err)]
                  else []),
              spawned := spawned s @ [ffprobe_path self # args]\<rparr>)))
   \<and> (spawn W (ffmpeg_cmd self args) = Launch_fails e \<longrightarrow>
      execute_ffmpeg_command self W (map PStr args) kw s =
        (Raise e,
         s\<lparr>logged := logged s @
              [(DEBUG, ''Executing FFmpeg command: '' @ py_join '' '' (ffmpeg_cmd self args)),
               (ERROR, ''FFmpeg command failed: '' @ exn_str W e)],
           spawned := spawned s @ [ffmpeg_cmd self args]\<rparr>))
   \<and> (spawn W (ffprobe_path self # args) = Launch_fails e \<longrightarrow>
      execute_ffprobe_command self W (map PStr args) kw s =
        (Raise e,
         s\<lparr>logged := logged s @
              [(DEBUG, ''Executing FFprobe command: '' @ py_join '' '' (ffprobe_path self # args)),
               (ERROR, ''FFprobe command failed: '' @ exn_str W e)],
           spawned := spawned s @ [ffprobe_path self # args]\<rparr>))"
  by (simp add: execute_ffmpeg_command_eq execute_ffprobe_command_eq run_try completed_def
      failure_lines_def)

text \<open>Claim C5, amended, on the example wrapper: exit status 2, and a launch failure.\<close>

theorem nonzero_exit_returned_unless_checked_witness:
  "execute_ffmpeg_command example_wrapper
     (example_world True (Exits 2 [] ''bad input'') (Inl (JSONDecodeError [])))
     (map PStr [''-i'', ''in.mov'']) \<lparr>capture_output = True, check = False\<rparr> no_effects =
   (Ok \<lparr>returncode = 2, stdout = Some [], stderr = Some ''bad input''\<rparr>,
    \<lparr>logged = [(DEBUG, ''Executing FFmpeg command: ffmpeg.exe -i in.mov -threads 4''),
                (ERROR, ''FFmpeg command failed with return code 2''),
                (ERROR, ''FFmpeg stderr: bad input'')],
      spawned = [[''ffmpeg.exe'', ''-i'', ''in.mov'', ''-threads'', ''4'']], made_dirs = [], notified = []\<rparr>)
   \<and> execute_ffprobe_command example_wrapper
     (example_world True (Exits 2 [] ''bad input'') (Inl (JSONDecodeError [])))
     (map PStr [''-i'', ''in.mov'']) \<lparr>capture_output = True, check = False\<rparr> no_effects =
   (Ok \<lparr>returncode = 2, stdout = Some [], stderr = Some ''bad input''\<rparr>,
    \<lparr>logged = [(DEBUG, ''Executing FFprobe command: ffprobe.exe -i in.mov''),
                (ERROR, ''FFprobe command failed with return code 2''),
                (ERROR, ''FFprobe stderr: bad input'')],
      spawned = [[''ffprobe.exe'', ''-i'', ''in.mov'']], made_dirs = [], notified = []\<rparr>)
   \<and> execute_ffmpeg_command example_wrapper
     (example_world True (Launch_fails (OSError ''not found'')) (Inl (JSONDecodeError [])))
     (map PStr [''-i'', ''in.mov'']) \<lparr>capture_output = True, check = False\<rparr> no_effects =
   (Raise (OSError ''not found''),
    \<lparr>logged = [(DEBUG, ''Executing FFmpeg command: ffmpeg.exe -i in.mov -threads 4''),
                (ERROR, ''FFmpeg command failed: failure'')],
      spawned = [[''ffmpeg.exe'', ''-i'', ''in.mov'', ''-threads'', ''4'']], made_dirs = [], notified = []\<rparr>)
   \<and> execute_ffprobe_command example_wrapper
     (example_world True (Launch_fails (OSError ''not found'')) (Inl (JSONDecodeError [])))
     (map PStr [''-i'', ''in.mov'']) \<lparr>capture_output = True, check = False\<rparr> no_effects =
   (Raise (OSError ''not found''),
    \<lparr>logged = [(DEBUG, ''Executing FFprobe command: ffprobe.exe -i in.mov''),
                (ERROR, ''FFprobe command failed: failure'')],
      spawned = [[''ffprobe.exe'', ''-i'', ''in.mov'']], made_dirs = [], notified = []\<rparr>)"
proof -
  let ?W2 = "example_world True (Exits 2 [] ''bad input'') (Inl (JSONDecodeError []))"
  let ?WL = "example_world True (Launch_fails (OSError ''not found''))
               (Inl (JSONDecodeError []))"
  let ?kw = "\<lparr>capture_output = True, check = False\<rparr>"
  have h2: "spawn ?W2 c = Exits 2 [] ''bad input'' \<and> (2::int) \<noteq> 0" for c
    by (simp add: example_world_def)
  have hl: "spawn ?WL c = Launch_fails (OSError ''not found'')" for c
    by (simp add: example_world_def)
  note a = nonzero_exit_returned_unless_checked [where W = ?W2 and self = example_wrapper
      and args = "[''-i'', ''in.mov'']" and kw = ?kw and s = no_effects and rc = 2
      and out = "[]" and err = "''bad input''"]
  note b = nonzero_exit_returned_unless_checked [where W = ?WL and self = example_wrapper
      and args = "[''-i'', ''in.mov'']" and kw = ?kw and s = no_effects
      and e = "OSError ''not found''"]
  have a1: "execute_ffmpeg_command example_wrapper ?W2 (map PStr [''-i'', ''in.mov'']) ?kw no_effects =
      (Ok \<lparr>returncode = 2, stdout = Some [], stderr = Some ''bad input''\<rparr>,
       \<lparr>logged = [(DEBUG, ''Executing FFmpeg command: ffmpeg.exe -i in.mov -threads 4''),
                   (ERROR, ''FFmpeg command failed with return code 2''),
                   (ERROR, ''FFmpeg stderr: bad input'')],
         spawned = [[''ffmpeg.exe'', ''-i'', ''in.mov'', ''-threads'', ''4'']], made_dirs = [], notified = []\<rparr>)"
    using a [THEN conjunct1] h2
    by (simp add: ffmpeg_cmd_def example_wrapper_def no_effects_def str_int_eval)
  have a2: "execute_ffprobe_command example_wrapper ?W2 (map PStr [''-i'', ''in.mov'']) ?kw no_effects =
      (Ok \<lparr>returncode = 2, stdout = Some [], stderr = Some ''bad input''\<rparr>,
       \<lparr>logged = [(DEBUG, ''Executing FFprobe command: ffprobe.exe -i in.mov''),
                   (ERROR, ''FFprobe command failed with return code 2''),
                   (ERROR, ''FFprobe stderr: bad input'')],
         spawned = [[''ffprobe.exe'', ''-i'', ''in.mov'']], made_dirs = [], notified = []\<rparr>)"
    using a [THEN conjunct2, THEN conjunct1] h2
    by (simp add: example_wrapper_def no_effects_def str_int_eval)
  have b1: "execute_ffmpeg_command example_wrapper ?WL (map PStr [''-i'', ''in.mov'']) ?kw no_effects =
      (Raise (OSError ''not found''),
       \<lparr>logged = [(DEBUG, ''Executing FFmpeg command: ffmpeg.exe -i in.mov -threads 4''),
                   (ERROR, ''FFmpeg command failed: failure'')],
         spawned = [[''ffmpeg.exe'', ''-i'', ''in.mov'', ''-threads'', ''4'']], made_dirs = [], notified = []\<rparr>)"
    using b [THEN conjunct2, THEN conjunct2, THEN conjunct1] hl
    by (simp add: ffmpeg_cmd_def example_wrapper_def no_effects_def str_int_eval example_world_def)
  have b2: "execute_ffprobe_command example_wrapper ?WL (map PStr [''-i'', ''in.mov'']) ?kw no_effects =
      (Raise (OSError ''not found''),
       \<lparr>logged = [(DEBUG, ''Executing FFprobe command: ffprobe.exe -i in.mov''),
                   (ERROR, ''FFprobe command failed: failure'')],
         spawned = [[''ffprobe.exe'', ''-i'', ''in.mov'']], made_dirs = [], notified = []\<rparr>)"
    using b [THEN conjunct2, THEN conjunct2, THEN conjunct2] hl
    by (simp add: example_wrapper_def no_effects_def str_int_eval example_world_def)
  from a1 a2 b1 b2 show ?thesis by simp
qed

subsection \<open>Missing input files\<close>

text \<open>
  Claim C2 lists \<^verbatim>\<open>validate_media_file\<close> among the operations that fail with a value
  error, before any launch, on a path that does not exist. It makes no existence check:
  the probe is launched on the missing path and the answer is \<^verbatim>\<open>False\<close>.
\<close>

theorem validate_launches_for_missing_file_counterexample:
  "\<not> path_exists
       (example_world False (Exits 1 [] ''No such file or directory'')
          (Inl (JSONDecodeError []))) ''missing.mov''
   \<and> validate_media_file example_wrapper
       (example_world False (Exits 1 [] ''No such file or directory'')
          (Inl (JSONDecodeError []))) ''missing.mov'' no_effects =
     (Ok False,
      \<lparr>logged = [(DEBUG, ''Executing FFprobe command: ffprobe.exe -v error -show_entries format=duration -of csv=p=0 missing.mov''),
                  (ERROR, ''FFprobe command failed with return code 1''),
                  (ERROR, ''FFprobe stderr: No such file or directory'')],
        spawned = [[''ffprobe.exe'', ''-v'', ''error'', ''-show_entries'', ''format=duration'',
                    ''-of'', ''csv=p=0'', ''missing.mov'']],
        made_dirs = [], notified = []\<rparr>)"
  unfolding validate_media_file_outcome
  by (simp add: example_defs validate_args_def failure_lines_def completed_def str_int_eval)

text \<open>
  Claim C2, amended. Called with a path that does not exist, \<^verbatim>\<open>convert_video\<close>,
  \<^verbatim>\<open>get_video_info\<close> and \<^verbatim>\<open>get_stream_info\<close> raise a \<open>ValueError\<close> that names the path,
  and leave no trace: nothing is launched, logged or created. \<^verbatim>\<open>validate_media_file\<close>
  checks nothing: it launches the probe on the path and never raises.
\<close>

theorem missing_input_rejected:
  assumes "\<not> path_exists W p"
  shows "convert_video self W p out cb options s =
           (Raise (ValueError (Some (''Input file does not exist: '' @ p))), s)
       \<and> get_video_info self W p s =
           (Raise (ValueError (Some (''Video file does not exist: '' @ p))), s)
       \<and> get_stream_info self W p stream_type s =
           (Raise (ValueError (Some (''Media file does not exist: '' @ p))), s)
       \<and> (\<forall>e. fst (validate_media_file self W p s) \<noteq> Raise e)
       \<and> spawned (snd (validate_media_file self W p s)) =
           spawned s @ [ffprobe_path self # validate_args p]"
proof (intro conjI allI)
  show "convert_video self W p out cb options s =
      (Raise (ValueError (Some (''Input file does not exist: '' @ p))), s)"
    using assms by (simp add: convert_video_def raise_def)
  show "get_video_info self W p s =
      (Raise (ValueError (Some (''Video file does not exist: '' @ p))), s)"
    using assms by (simp add: get_video_info_def raise_def)
  show "get_stream_info self W p stream_type s =
      (Raise (ValueError (Some (''Media file does not exist: '' @ p))), s)"
    using assms by (simp add: get_stream_info_def raise_def)
  show "fst (validate_media_file self W p s) \<noteq> Raise e" for e
    by (simp add: validate_media_file_outcome Let_def split: outcome.splits)
  show "spawned (snd (validate_media_file self W p s)) =
      spawned s @ [ffprobe_path self # validate_args p]"
    by (simp add: validate_media_file_outcome Let_def split: outcome.splits)
qed

text \<open>Claim C2, amended, in a world where no file exists.\<close>

theorem missing_input_rejected_witness:
  "convert_video example_wrapper
     (example_world False (Exits 1 [] []) (Inl (JSONDecodeError [])))
     ''missing.mov'' ''out.mp4'' False [] no_effects =
     (Raise (ValueError (Some ''Input file does not exist: missing.mov'')), no_effects)
   \<and> get_video_info example_wrapper
     (example_world False (Exits 1 [] []) (Inl (JSONDecodeError [])))
     ''missing.mov'' no_effects =
     (Raise (ValueError (Some ''Video file does not exist: missing.mov'')), no_effects)
   \<and> get_stream_info example_wrapper
     (example_world False (Exits 1 [] []) (Inl (JSONDecodeError [])))
     ''missing.mov'' None no_effects =
     (Raise (ValueError (Some ''Media file does not exist: missing.mov'')), no_effects)
   \<and> (\<forall>e. fst (validate_media_file example_wrapper
     (example_world False (Exits 1 [] []) (Inl (JSONDecodeError [])))
     ''missing.mov'' no_effects) \<noteq> Raise e)
   \<and> spawned (snd (validate_media_file example_wrapper
     (example_world False (Exits 1 [] []) (Inl (JSONDecodeError [])))
     ''missing.mov'' no_effects)) =
     [[''ffprobe.exe'', ''-v'', ''error'', ''-show_entries'', ''format=duration'',
       ''-of'', ''csv=p=0'', ''missing.mov'']]"
proof -
  let ?W = "example_world False (Exits 1 [] []) (Inl (JSONDecodeError []))"
  have h: "\<not> path_exists ?W ''missing.mov''"
    by (simp add: example_world_def)
  have v: "ffprobe_path example_wrapper # validate_args ''missing.mov'' =
      [''ffprobe.exe'', ''-v'', ''error'', ''-show_entries'', ''format=duration'',
       ''-of'', ''csv=p=0'', ''missing.mov'']" "spawned no_effects = []"
    by (simp_all add: example_wrapper_def validate_args_def no_effects_def)
  show ?thesis
    using missing_input_rejected [OF h, of example_wrapper "''out.mp4''" False "[]" no_effects None]
    unfolding v by simp
qed

text \<open>
  \<^verbatim>\<open>create_thumbnail\<close> and \<^verbatim>\<open>extract_frames\<close> are not part of the amended claim. They test
  nothing either: whatever the world, the path goes to FFmpeg.
\<close>

lemma frame_operations_launch_unchecked:
  "spawned (snd (create_thumbnail self W p out t s)) =
     spawned s @ [ffmpeg_cmd self [''-i'', p, ''-ss'', py_str t, ''-vframes'', ''1'', ''-y'', out]]"
  "spawned (snd (extract_frames self W p pattern start dur rate s)) =
     spawned s @ [ffmpeg_cmd self
       ((if start \<noteq> PNone then [''-ss'', py_str start] else []) @ [''-i'', p] @
        (if dur \<noteq> PNone then [''-t'', py_str dur] else []) @
        (if rate \<noteq> PNone then [''-vf'', ''fps='' @ py_str rate] else []) @ [''-y'', pattern])]"
  unfolding create_thumbnail_def extract_frames_def Let_def
  by (rule spawned_execute_ffmpeg_command_strs, simp add: ebind_Inr)+

subsection \<open>Codec resolution\<close>

text \<open>
  Claim C4. Take a call of \<^verbatim>\<open>convert_video\<close> on an existing input whose output directory
  is there or can be made, with settings lookups that fail, if they fail, as a missing
  provider or a missing key does, and let the codec of each kind be resolved by the
  claim's rule: the per-call override if given, else the setting \<^verbatim>\<open>default_video_codec\<close>
  (\<^verbatim>\<open>default_audio_codec\<close>), else \<^verbatim>\<open>libx264\<close> (\<^verbatim>\<open>aac\<close>); both resolved values being texts
  or counting as false. Then the command the call launches carries \<^verbatim>\<open>-vcodec\<close> and
  \<^verbatim>\<open>-acodec\<close> with exactly the resolved codecs (no flag for one that counts as false), and
  the caller gets back what the child process gives: its result object when it exits,
  the launch failure when it cannot be started. No failure of a lookup reaches the
  caller.
\<close>

theorem codec_resolution:
  assumes "path_exists W i"
      and "fst (ensure_output_dir W out s) = Ok ()"
      and "lookup_quiet (framework_settings self) ''default_video_codec'' ''libx264''"
      and "lookup_quiet (framework_settings self) ''default_audio_codec'' ''aac''"
      and "vc = resolved_codec (framework_settings self) options ''vcodec''
                  ''default_video_codec'' ''libx264''"
      and "ac = resolved_codec (framework_settings self) options ''acodec''
                  ''default_audio_codec'' ''aac''"
      and "text_or_falsy vc" and "text_or_falsy ac"
      and "cmd = ffmpeg_cmd self
                   ([''-i'', i] @ codec_words ''-vcodec'' vc @ codec_words ''-acodec'' ac @
                    option_words (other_options options) @ [''-y'', out]) @
                 (if cb then [''-progress'', ''pipe:2''] else [])"
  shows "spawned (snd (convert_video self W i out cb options s)) = spawned s @ [cmd]
       \<and> fst (convert_video self W i out cb options s) =
           (case spawn W cmd of
              Launch_fails e \<Rightarrow> Raise e
            | Never_exits \<Rightarrow> Hang
            | Exits rc out_text err_text \<Rightarrow>
                Ok (if cb then collected W cmd True rc out_text err_text
                    else completed \<lparr>capture_output = True, check = False\<rparr> rc out_text err_text))"
proof -
  let ?xs = "[''-i'', i] @ codec_words ''-vcodec'' vc @ codec_words ''-acodec'' ac @
             option_words (other_options options) @ [''-y'', out]"
  from assms(2) obtain s1 where s1: "ensure_output_dir W out s = (Ok (), s1)"
    by (cases "ensure_output_dir W out s") auto
  have sp: "spawned s1 = spawned s"
    using ensure_output_dir_spawned [of W out s] s1 by simp
  have args: "convert_args self i out options = Inr (map PStr ?xs)"
    using convert_args_resolved [OF assms(3) assms(4), of options i out] assms(5-8)
    by simp
  note run = convert_video_run [OF assms(1) s1 args]
  show ?thesis
  proof (cases cb)
    case True
    then have c: "cmd = ffmpeg_cmd self ?xs @ [''-progress'', ''pipe:2'']"
      using assms(9) by simp
    show ?thesis
      unfolding run c execute_ffmpeg_with_progress_outcome
      using True sp by (simp add: Let_def split: outcome.splits)
  next
    case False
    then have c: "cmd = ffmpeg_cmd self ?xs"
      using assms(9) by simp
    show ?thesis
      unfolding run c execute_ffmpeg_command_outcome
      using False sp by (simp add: Let_def split: outcome.splits)
  qed
qed

text \<open>
  Claim C4 on three calls: an override on a wrapper without provider; no override on a
  wrapper whose settings name an audio codec, with a callback and a child that fails
  after one progress line; and a provider whose lookups raise \<open>KeyError\<close>, with an audio
  override that counts as false and a converter that cannot be started.
\<close>

theorem codec_resolution_witness:
  "spawned (snd (convert_video (example_wrapper\<lparr>framework_settings := NoProvider\<rparr>)
      (example_world True (Exits 0 [] []) (Inl (JSONDecodeError [])))
      ''in.mov'' ''out.mp4'' False [(''vcodec'', PStr ''mpeg4''), (''crf'', PInt 23)]
      no_effects)) =
      [[''ffmpeg.exe'', ''-i'', ''in.mov'', ''-vcodec'', ''mpeg4'', ''-acodec'', ''aac'',
        ''-crf'', ''23'', ''-y'', ''out.mp4'', ''-threads'', ''4'']]
   \<and> fst (convert_video (example_wrapper\<lparr>framework_settings := NoProvider\<rparr>)
      (example_world True (Exits 0 [] []) (Inl (JSONDecodeError [])))
      ''in.mov'' ''out.mp4'' False [(''vcodec'', PStr ''mpeg4''), (''crf'', PInt 23)]
      no_effects) =
      Ok \<lparr>returncode = 0, stdout = Some [], stderr = Some []\<rparr>
   \<and> spawned (snd (convert_video
        (example_wrapper\<lparr>framework_settings :=
           DictProvider [(''default_audio_codec'', PStr ''mp3'')]\<rparr>)
        (example_world True (Exits 1 [] (unlines [''frame=1 time=00:00:01'', ''No space left'']))
           (Inl (JSONDecodeError [])))
        ''in.mov'' ''out.mp4'' True [] no_effects)) =
      [[''ffmpeg.exe'', ''-i'', ''in.mov'', ''-vcodec'', ''libx264'', ''-acodec'', ''mp3'',
        ''-y'', ''out.mp4'', ''-threads'', ''4'', ''-progress'', ''pipe:2'']]
   \<and> fst (convert_video
        (example_wrapper\<lparr>framework_settings :=
           DictProvider [(''default_audio_codec'', PStr ''mp3'')]\<rparr>)
        (example_world True (Exits 1 [] (unlines [''frame=1 time=00:00:01'', ''No space left'']))
           (Inl (JSONDecodeError [])))
        ''in.mov'' ''out.mp4'' True [] no_effects) =
      Ok \<lparr>returncode = 1, stdout = Some [], stderr = Some ''No space left''\<rparr>
   \<and> spawned (snd (convert_video (example_wrapper\<lparr>framework_settings := keyless_provider\<rparr>)
        (example_world True (Launch_fails (OSError ''not found'')) (Inl (JSONDecodeError [])))
        ''in.mov'' ''out.mp4'' False [(''acodec'', PNone)] no_effects)) =
      [[''ffmpeg.exe'', ''-i'', ''in.mov'', ''-vcodec'', ''libx264'', ''-y'', ''out.mp4'',
        ''-threads'', ''4'']]
   \<and> fst (convert_video (example_wrapper\<lparr>framework_settings := keyless_provider\<rparr>)
        (example_world True (Launch_fails (OSError ''not found'')) (Inl (JSONDecodeError [])))
        ''in.mov'' ''out.mp4'' False [(''acodec'', PNone)] no_effects) =
      Raise (OSError ''not found'')"
proof -
  let ?W1 = "example_world True (Exits 0 [] []) (Inl (JSONDecodeError []))"
  let ?W2 = "example_world True
      (Exits 1 [] (unlines [''frame=1 time=00:00:01'', ''No space left'']))
      (Inl (JSONDecodeError []))"
  let ?W3 = "example_world True (Launch_fails (OSError ''not found''))
      (Inl (JSONDecodeError []))"
  let ?a = "example_wrapper\<lparr>framework_settings := NoProvider\<rparr>"
  let ?b = "example_wrapper\<lparr>framework_settings :=
      DictProvider [(''default_audio_codec'', PStr ''mp3'')]\<rparr>"
  let ?c = "example_wrapper\<lparr>framework_settings := keyless_provider\<rparr>"
  note defs = example_defs ensure_output_dir_def lookup_quiet_def resolved_codec_def
    held_setting_def text_or_falsy_def codec_words_def option_words_def other_options_def
    ffmpeg_cmd_def str_int_eval keyless_provider_def
  have err: "read_lines (unlines [''frame=1 time=00:00:01'', ''No space left'']) =
      [''frame=1 time=00:00:01'' @ [CHR 0x0A], ''No space left'']"
    by (simp add: unlines_def read_lines_def)
  have t1: "spawned (snd (convert_video ?a ?W1 ''in.mov'' ''out.mp4'' False
        [(''vcodec'', PStr ''mpeg4''), (''crf'', PInt 23)] no_effects)) =
      [[''ffmpeg.exe'', ''-i'', ''in.mov'', ''-vcodec'', ''mpeg4'', ''-acodec'', ''aac'',
        ''-crf'', ''23'', ''-y'', ''out.mp4'', ''-threads'', ''4'']]
    \<and> fst (convert_video ?a ?W1 ''in.mov'' ''out.mp4'' False
        [(''vcodec'', PStr ''mpeg4''), (''crf'', PInt 23)] no_effects) =
      Ok \<lparr>returncode = 0, stdout = Some [], stderr = Some []\<rparr>"
    using codec_resolution [where self = ?a and W = ?W1 and i = "''in.mov''"
        and out = "''out.mp4''" and cb = False and s = no_effects
        and options = "[(''vcodec'', PStr ''mpeg4''), (''crf'', PInt 23)]",
        OF _ _ _ _ refl refl _ _ refl]
    by (simp add: defs completed_def)
  have t2: "spawned (snd (convert_video ?b ?W2 ''in.mov'' ''out.mp4'' True [] no_effects)) =
      [[''ffmpeg.exe'', ''-i'', ''in.mov'', ''-vcodec'', ''libx264'', ''-acodec'', ''mp3'',
        ''-y'', ''out.mp4'', ''-threads'', ''4'', ''-progress'', ''pipe:2'']]
    \<and> fst (convert_video ?b ?W2 ''in.mov'' ''out.mp4'' True [] no_effects) =
      Ok \<lparr>returncode = 1, stdout = Some [], stderr = Some ''No space left''\<rparr>"
    using codec_resolution [where self = ?b and W = ?W2 and i = "''in.mov''"
        and out = "''out.mp4''" and cb = True and s = no_effects and options = "[]",
        OF _ _ _ _ refl refl _ _ refl]
    by (simp add: defs collected_def monitor_took_def err)
  have t3: "spawned (snd (convert_video ?c ?W3 ''in.mov'' ''out.mp4'' False
        [(''acodec'', PNone)] no_effects)) =
      [[''ffmpeg.exe'', ''-i'', ''in.mov'', ''-vcodec'', ''libx264'', ''-y'', ''out.mp4'',
        ''-threads'', ''4'']]
    \<and> fst (convert_video ?c ?W3 ''in.mov'' ''out.mp4'' False
        [(''acodec'', PNone)] no_effects) = Raise (OSError ''not found'')"
    using codec_resolution [where self = ?c and W = ?W3 and i = "''in.mov''"
        and out = "''out.mp4''" and cb = False and s = no_effects
        and options = "[(''acodec'', PNone)]",
        OF _ _ _ _ refl refl _ _ refl]
    by (simp add: defs)
  from t1 t2 t3 show ?thesis
    by blast
qed

subsection \<open>Options without a value\<close>

text \<open>
  Claim C10. A keyword option whose value is \<^verbatim>\<open>None\<close> adds nothing to the argument vector
  of \<^verbatim>\<open>convert_video\<close>: the vector is the one built without such options. A codec
  override that is \<^verbatim>\<open>None\<close>, or any other falsy value, leaves the codec flag out; the
  default codec is not used in its place.
\<close>

theorem none_valued_options_omitted:
  "convert_args self i out
      (filter (\<lambda>kv. snd kv \<noteq> PNone \<or> fst kv = ''vcodec'' \<or> fst kv = ''acodec'') options) =
     convert_args self i out options
   \<and> option_flags ((k, PNone) # rest) = option_flags rest
   \<and> (default_codec (framework_settings self) ''default_video_codec'' ''libx264'' = Inr dv \<and>
       default_codec (framework_settings self) ''default_audio_codec'' ''aac'' = Inr da \<longrightarrow>
       (map_of options ''vcodec'' = Some v \<and> \<not> truthy v \<longrightarrow>
          convert_args self i out options =
            Inr ([PStr ''-i'', PStr i] @
                 codec_flag ''-acodec'' (dict_get options ''acodec'' da) @
                 option_flags (other_options options) @ [PStr ''-y'', PStr out])) \<and>
       (map_of options ''acodec'' = Some a \<and> \<not> truthy a \<longrightarrow>
          convert_args self i out options =
            Inr ([PStr ''-i'', PStr i] @
                 codec_flag ''-vcodec'' (dict_get options ''vcodec'' dv) @
                 option_flags (other_options options) @ [PStr ''-y'', PStr out])))"
proof (intro conjI impI)
  let ?P = "\<lambda>kv. snd kv \<noteq> PNone \<or> fst kv = ''vcodec'' \<or> fst kv = ''acodec''"
  have v: "dict_get (filter ?P options) ''vcodec'' d = dict_get options ''vcodec'' d" for d
    by (simp add: dict_get_def map_of_filter_keep)
  have "map_of (filter (\<lambda>kv. fst kv \<noteq> ''vcodec'') (filter ?P options)) ''acodec'' =
      map_of (filter (\<lambda>kv. fst kv \<noteq> ''vcodec'') options) ''acodec''"
    by (simp add: map_of_filter_other map_of_filter_keep)
  then have a: "dict_get (filter (\<lambda>kv. fst kv \<noteq> ''vcodec'') (filter ?P options)) ''acodec'' d =
      dict_get (filter (\<lambda>kv. fst kv \<noteq> ''vcodec'') options) ''acodec'' d" for d
    by (simp add: dict_get_def)
  have "filter (\<lambda>kv. fst kv \<noteq> ''acodec'') (filter (\<lambda>kv. fst kv \<noteq> ''vcodec'') (filter ?P options))
      = filter (\<lambda>kv. (snd kv \<noteq> PNone \<or> (fst kv = ''vcodec'' \<or> fst kv = ''acodec'')) \<and>
                     \<not> (fst kv = ''vcodec'' \<or> fst kv = ''acodec'')) options"
    by (induction options) auto
  moreover have "filter (\<lambda>kv. fst kv \<noteq> ''acodec'') (filter (\<lambda>kv. fst kv \<noteq> ''vcodec'') options)
      = filter (\<lambda>kv. \<not> (fst kv = ''vcodec'' \<or> fst kv = ''acodec'')) options"
    by (induction options) auto
  ultimately have r: "option_flags (filter (\<lambda>kv. fst kv \<noteq> ''acodec'')
        (filter (\<lambda>kv. fst kv \<noteq> ''vcodec'') (filter ?P options))) =
      option_flags (filter (\<lambda>kv. fst kv \<noteq> ''acodec'')
        (filter (\<lambda>kv. fst kv \<noteq> ''vcodec'') options))"
    using option_flags_drop_None [of "\<lambda>kv. fst kv = ''vcodec'' \<or> fst kv = ''acodec''" options]
    by simp
  show "convert_args self i out (filter ?P options) = convert_args self i out options"
    unfolding convert_args_def pop_option_def Let_def prod.case foldl_option_flags v a r ..
  show "option_flags ((k, PNone) # rest) = option_flags rest"
    by (simp add: option_flags_def)
next
  assume d: "default_codec (framework_settings self) ''default_video_codec'' ''libx264'' = Inr dv \<and>
    default_codec (framework_settings self) ''default_audio_codec'' ''aac'' = Inr da"
  assume "map_of options ''vcodec'' = Some v \<and> \<not> truthy v"
  then show "convert_args self i out options =
      Inr ([PStr ''-i'', PStr i] @ codec_flag ''-acodec'' (dict_get options ''acodec'' da) @
           option_flags (other_options options) @ [PStr ''-y'', PStr out])"
    using convert_args_eq [of self dv da i out options] d
    by (simp add: dict_get_def codec_flag_def)
next
  assume d: "default_codec (framework_settings self) ''default_video_codec'' ''libx264'' = Inr dv \<and>
    default_codec (framework_settings self) ''default_audio_codec'' ''aac'' = Inr da"
  assume "map_of options ''acodec'' = Some a \<and> \<not> truthy a"
  then show "convert_args self i out options =
      Inr ([PStr ''-i'', PStr i] @ codec_flag ''-vcodec'' (dict_get options ''vcodec'' dv) @
           option_flags (other_options options) @ [PStr ''-y'', PStr out])"
    using convert_args_eq [of self dv da i out options] d
    by (simp add: dict_get_def codec_flag_def)
qed

text \<open>
  Claim C10 on a call that passes \<^verbatim>\<open>vcodec=None\<close>, \<^verbatim>\<open>crf=23\<close>, \<^verbatim>\<open>preset=None\<close> and an
  empty \<^verbatim>\<open>acodec\<close>: only \<^verbatim>\<open>-crf 23\<close> stands between the input and \<^verbatim>\<open>-y\<close>.
\<close>

theorem none_valued_options_omitted_witness:
  "convert_args example_wrapper ''in.mov'' ''out.mp4''
       [(''vcodec'', PNone), (''crf'', PInt 23), (''acodec'', PStr [])] =
     convert_args example_wrapper ''in.mov'' ''out.mp4''
       [(''vcodec'', PNone), (''crf'', PInt 23), (''preset'', PNone), (''acodec'', PStr [])]
   \<and> convert_args example_wrapper ''in.mov'' ''out.mp4''
       [(''vcodec'', PNone), (''crf'', PInt 23), (''preset'', PNone), (''acodec'', PStr [])] =
     Inr (map PStr [''-i'', ''in.mov'', ''-crf'', ''23'', ''-y'', ''out.mp4''])
   \<and> convert_args example_wrapper ''in.mov'' ''out.mp4''
       [(''vcodec'', PStr ''mpeg4''), (''acodec'', PNone)] =
     Inr (map PStr [''-i'', ''in.mov'', ''-vcodec'', ''mpeg4'', ''-y'', ''out.mp4''])"
proof -
  let ?o1 = "[(''vcodec'', PNone), (''crf'', PInt 23), (''preset'', PNone), (''acodec'', PStr [])]"
  let ?o2 = "[(''vcodec'', PStr ''mpeg4''), (''acodec'', PNone)]"
  have d: "default_codec (framework_settings example_wrapper) ''default_video_codec'' ''libx264''
        = Inr (PStr ''libx264'') \<and>
      default_codec (framework_settings example_wrapper) ''default_audio_codec'' ''aac''
        = Inr (PStr ''aac'')"
    by (simp add: example_wrapper_def default_codec_cases)
  have v: "map_of ?o1 ''vcodec'' = Some PNone \<and> \<not> truthy PNone"
    and a: "map_of ?o2 ''acodec'' = Some PNone \<and> \<not> truthy PNone"
    by simp_all
  have f: "filter (\<lambda>kv. snd kv \<noteq> PNone \<or> fst kv = ''vcodec'' \<or> fst kv = ''acodec'') ?o1 =
      [(''vcodec'', PNone), (''crf'', PInt 23), (''acodec'', PStr [])]"
    by simp
  note t1 = none_valued_options_omitted [where self = example_wrapper and i = "''in.mov''"
      and out = "''out.mp4''" and options = ?o1 and dv = "PStr ''libx264''"
      and da = "PStr ''aac''" and v = PNone]
  note t2 = none_valued_options_omitted [where self = example_wrapper and i = "''in.mov''"
      and out = "''out.mp4''" and options = ?o2 and dv = "PStr ''libx264''"
      and da = "PStr ''aac''" and a = PNone]
  have c2: "convert_args example_wrapper ''in.mov'' ''out.mp4'' ?o1 =
      Inr (map PStr [''-i'', ''in.mov'', ''-crf'', ''23'', ''-y'', ''out.mp4''])"
    using t1 d v
    by (simp add: codec_flag_def option_flags_def other_options_def dict_get_def str_int_eval)
  have c1: "convert_args example_wrapper ''in.mov'' ''out.mp4''
        [(''vcodec'', PNone), (''crf'', PInt 23), (''acodec'', PStr [])] =
      convert_args example_wrapper ''in.mov'' ''out.mp4'' ?o1"
    using t1 [THEN conjunct1] unfolding f .
  have c3: "convert_args example_wrapper ''in.mov'' ''out.mp4'' ?o2 =
      Inr (map PStr [''-i'', ''in.mov'', ''-vcodec'', ''mpeg4'', ''-y'', ''out.mp4''])"
    using t2 d a
    by (simp add: codec_flag_def option_flags_def other_options_def dict_get_def)
  from c1 c2 c3 show ?thesis by blast
qed

subsection \<open>Proxies\<close>

text \<open>
  Claim C7. \<^verbatim>\<open>create_proxy\<close> is a call of \<^verbatim>\<open>convert_video\<close> whose scale filter names
  1280x720, 1920x1080 or 854x480 for the tags 720p, 1080p and 480p, and the resolution
  string itself for any other; with \<^verbatim>\<open>1080p\<close> and \<^verbatim>\<open>fast\<close> the options are the filter
  \<^verbatim>\<open>scale=1920x1080\<close>, crf \<^verbatim>\<open>28\<close> and preset \<^verbatim>\<open>fast\<close>.
\<close>

theorem proxy_scale_target:
  "create_proxy self W i out resolution quality =
     convert_video self W i out False
       [(''vf'', PStr (''scale='' @
           (if resolution = ''720p'' then ''1280x720''
            else if resolution = ''1080p'' then ''1920x1080''
            else if resolution = ''480p'' then ''854x480'' else resolution))),
        (''crf'', PStr (if quality = ''fast'' then ''28''
                        else if quality = ''slow'' then ''18'' else ''23'')),
        (''preset'', PStr (if quality = ''fast'' then ''fast''
                           else if quality = ''slow'' then ''slow'' else ''medium''))]
   \<and> create_proxy self W i out ''1080p'' ''fast'' =
     convert_video self W i out False
       [(''vf'', PStr ''scale=1920x1080''), (''crf'', PStr ''28''), (''preset'', PStr ''fast'')]"
  by (simp add: create_proxy_eq)

text \<open>
  Claim C7 on the example wrapper: the command launched for \<^verbatim>\<open>1080p\<close> and \<^verbatim>\<open>fast\<close>, and
  for a resolution given as \<^verbatim>\<open>WIDTHxHEIGHT\<close>.
\<close>

theorem proxy_scale_target_witness:
  "spawned (snd (create_proxy example_wrapper
       (example_world True (Exits 0 [] []) (Inl (JSONDecodeError [])))
       ''in.mov'' ''out.mp4'' ''1080p'' ''fast'' no_effects)) =
     [[''ffmpeg.exe'', ''-i'', ''in.mov'', ''-vcodec'', ''libx264'', ''-acodec'', ''aac'',
       ''-vf'', ''scale=1920x1080'', ''-crf'', ''28'', ''-preset'', ''fast'',
       ''-y'', ''out.mp4'', ''-threads'', ''4'']]
   \<and> spawned (snd (create_proxy example_wrapper
       (example_world True (Exits 0 [] []) (Inl (JSONDecodeError [])))
       ''in.mov'' ''out.mp4'' ''320x240'' ''slow'' no_effects)) =
     [[''ffmpeg.exe'', ''-i'', ''in.mov'', ''-vcodec'', ''libx264'', ''-acodec'', ''aac'',
       ''-vf'', ''scale=320x240'', ''-crf'', ''18'', ''-preset'', ''slow'',
       ''-y'', ''out.mp4'', ''-threads'', ''4'']]"
proof -
  let ?W = "example_world True (Exits 0 [] []) (Inl (JSONDecodeError []))"
  note t1 = proxy_scale_target [where self = example_wrapper and W = ?W and i = "''in.mov''"
      and out = "''out.mp4''", THEN conjunct2]
  note t2 = proxy_scale_target [where self = example_wrapper and W = ?W and i = "''in.mov''"
      and out = "''out.mp4''" and resolution = "''320x240''" and quality = "''slow''",
      THEN conjunct1]
  have a: "spawned (snd (create_proxy example_wrapper ?W ''in.mov'' ''out.mp4'' ''1080p'' ''fast''
        no_effects)) =
      [[''ffmpeg.exe'', ''-i'', ''in.mov'', ''-vcodec'', ''libx264'', ''-acodec'', ''aac'',
        ''-vf'', ''scale=1920x1080'', ''-crf'', ''28'', ''-preset'', ''fast'',
        ''-y'', ''out.mp4'', ''-threads'', ''4'']]"
    unfolding t1 by (simp add: run_defs example_defs str_int_eval)
  have b: "spawned (snd (create_proxy example_wrapper ?W ''in.mov'' ''out.mp4'' ''320x240'' ''slow''
        no_effects)) =
      [[''ffmpeg.exe'', ''-i'', ''in.mov'', ''-vcodec'', ''libx264'', ''-acodec'', ''aac'',
        ''-vf'', ''scale=320x240'', ''-crf'', ''18'', ''-preset'', ''slow'',
        ''-y'', ''out.mp4'', ''-threads'', ''4'']]"
    unfolding t2 by (simp add: run_defs example_defs str_int_eval)
  from a b show ?thesis by blast
qed

text \<open>
  Claim C8. A quality tag other than \<^verbatim>\<open>fast\<close>, \<^verbatim>\<open>medium\<close> and \<^verbatim>\<open>slow\<close> makes
  \<^verbatim>\<open>create_proxy\<close> do what it does for \<^verbatim>\<open>medium\<close>: the call of \<^verbatim>\<open>convert_video\<close> with crf
  \<^verbatim>\<open>23\<close> and preset \<^verbatim>\<open>medium\<close>.
\<close>

theorem unknown_quality_is_medium:
  assumes "quality \<notin> set [''fast'', ''medium'', ''slow'']"
  shows "create_proxy self W i out resolution quality =
           create_proxy self W i out resolution ''medium''
       \<and> create_proxy self W i out resolution quality =
           convert_video self W i out False
             [(''vf'', PStr (''scale='' @ dict_get resolution_map resolution resolution)),
              (''crf'', PStr ''23''), (''preset'', PStr ''medium'')]"
  using assms
  by (simp add: create_proxy_def quality_map_def dict_get_def)

text \<open>Claim C8 on the quality tag \<^verbatim>\<open>ultra\<close>.\<close>

theorem unknown_quality_is_medium_witness:
  "create_proxy example_wrapper
     (example_world True (Exits 0 [] []) (Inl (JSONDecodeError [])))
     ''in.mov'' ''out.mp4'' ''720p'' ''ultra'' =
   create_proxy example_wrapper
     (example_world True (Exits 0 [] []) (Inl (JSONDecodeError [])))
     ''in.mov'' ''out.mp4'' ''720p'' ''medium''
   \<and> spawned (snd (create_proxy example_wrapper
       (example_world True (Exits 0 [] []) (Inl (JSONDecodeError [])))
       ''in.mov'' ''out.mp4'' ''720p'' ''ultra'' no_effects)) =
     [[''ffmpeg.exe'', ''-i'', ''in.mov'', ''-vcodec'', ''libx264'', ''-acodec'', ''aac'',
       ''-vf'', ''scale=1280x720'', ''-crf'', ''23'', ''-preset'', ''medium'',
       ''-y'', ''out.mp4'', ''-threads'', ''4'']]"
proof -
  let ?W = "example_world True (Exits 0 [] []) (Inl (JSONDecodeError []))"
  have h: "''ultra'' \<notin> set [''fast'', ''medium'', ''slow'']"
    by simp
  note t = unknown_quality_is_medium [OF h, where self = example_wrapper and W = ?W
      and i = "''in.mov''" and out = "''out.mp4''" and resolution = "''720p''"]
  have a: "spawned (snd (create_proxy example_wrapper ?W ''in.mov'' ''out.mp4'' ''720p'' ''ultra''
        no_effects)) =
      [[''ffmpeg.exe'', ''-i'', ''in.mov'', ''-vcodec'', ''libx264'', ''-acodec'', ''aac'',
        ''-vf'', ''scale=1280x720'', ''-crf'', ''23'', ''-preset'', ''medium'',
        ''-y'', ''out.mp4'', ''-threads'', ''4'']]"
    unfolding t [THEN conjunct2]
    by (simp add: run_defs example_defs str_int_eval resolution_map_def)
  from t [THEN conjunct1] a show ?thesis by blast
qed

subsection \<open>The frame rate\<close>



subsection \<open>Which stream the information comes from\<close>

text \<open>
  Claim C1 says that the first video stream and the first audio stream give the result.
  The loop has no exit: every stream of a type overwrites what the one before it stored.
  For a document with two video streams (1920x1080 h264, then 640x360 mpeg4) followed by
  two audio streams (aac, then mp3), the result holds the second of each.
\<close>

theorem first_stream_overwritten_counterexample:
  "field video_hd ''width'' = JInt 1920 \<and> field video_hd ''height'' = JInt 1080
   \<and> field video_hd ''codec_name'' = JStr ''h264'' \<and> field audio_aac ''codec_name'' = JStr ''aac''
   \<and> fst (get_video_info example_wrapper
       (example_world True (Exits 0 ''{...}'' [])
          (Inr (probe_doc [video_hd, video_sd, audio_aac, audio_mp3])))
       ''in.mov'' no_effects) =
     Ok \<lparr>duration = 0, width = JInt 640, height = JInt 360, fps = Some 25,
         video_codec = JStr ''mpeg4'', audio_codec = JStr ''mp3'', bitrate = 0, file_size = 0\<rparr>"
  using example_probe_result
  by (simp add: field_def video_hd_def audio_aac_def dict_get_def)

text \<open>
  Claim C1, amended. Whenever \<^verbatim>\<open>get_video_info\<close> returns for a JSON object whose
  \<^verbatim>\<open>streams\<close> entry is a list: width, height and video codec name are those of the last
  video stream of the list, the audio codec name is that of the last audio stream, and
  the frame rate is that of the last video stream that sets one (the streams before it
  do not matter, and the video streams after it leave the rate alone).
\<close>

theorem info_from_last_streams:
  assumes "path_exists W p"
      and "spawn W (ffprobe_path self # info_args p) = Exits 0 out err"
      and "json_loads W out = Inr (JObj doc)"
      and "dict_get doc ''streams'' (JArr []) = JArr (before @ stream # later)"
      and "fst (get_video_info self W p s) = Ok info"
  shows "(is_kind ''video'' stream \<and> list_all (\<lambda>x. \<not> is_kind ''video'' x) later \<longrightarrow>
            width info = field stream ''width'' \<and> height info = field stream ''height'' \<and>
            video_codec info = field stream ''codec_name'')
       \<and> (is_kind ''audio'' stream \<and> list_all (\<lambda>x. \<not> is_kind ''audio'' x) later \<longrightarrow>
            audio_codec info = field stream ''codec_name'')
       \<and> (is_kind ''video'' stream \<and> frame_rate (floats W) stream = Inr (Some v) \<and>
          list_all (\<lambda>x. \<not> is_kind ''video'' x \<or> frame_rate (floats W) x = Inr None) later \<longrightarrow>
            fps info = Some v)"
proof -
  let ?F = "floats W"
  from assms(5) have "extract_info ?F (JObj doc) = Inr info"
    unfolding get_video_info_outcome [OF assms(1) assms(2) assms(3)]
    by (simp split: sum.splits)
  from extract_info_scan [OF this assms(4)] obtain i
    where "scan_streams ?F i (before @ stream # later) = Inr info"
    by blast
  then obtain j k where j: "scan_streams ?F i before = Inr j"
    and k: "process_stream ?F j stream = Inr k"
    and l: "scan_streams ?F k later = Inr info"
    by (auto simp: scan_streams_append ebind_def split: sum.splits)
  have a: "width info = field stream ''width'' \<and> height info = field stream ''height'' \<and>
      video_codec info = field stream ''codec_name''"
    if "is_kind ''video'' stream \<and> list_all (\<lambda>x. \<not> is_kind ''video'' x) later"
    using that process_stream_video [OF k] scan_streams_keeps_video [OF l] by simp
  have b: "audio_codec info = field stream ''codec_name''"
    if "is_kind ''audio'' stream \<and> list_all (\<lambda>x. \<not> is_kind ''audio'' x) later"
    using that process_stream_audio [OF k] scan_streams_keeps_audio [OF l] by simp
  have c: "fps info = Some v"
    if h: "is_kind ''video'' stream \<and> frame_rate ?F stream = Inr (Some v) \<and>
      list_all (\<lambda>x. \<not> is_kind ''video'' x \<or> frame_rate ?F x = Inr None) later"
  proof -
    from h process_stream_video [OF k] have "fps k = Some v"
      by auto
    with scan_streams_keeps_fps [OF l] h show ?thesis
      by simp
  qed
  from a b c show ?thesis
    by blast
qed

text \<open>
  Claim C1, amended, on the document of two video streams followed by two audio streams:
  the second video stream and the second audio stream give the result.
\<close>

theorem info_from_last_streams_witness:
  "fst (get_video_info example_wrapper
       (example_world True (Exits 0 ''{...}'' [])
          (Inr (probe_doc [video_hd, video_sd, audio_aac, audio_mp3])))
       ''in.mov'' no_effects) =
     Ok \<lparr>duration = 0, width = JInt 640, height = JInt 360, fps = Some 25,
         video_codec = JStr ''mpeg4'', audio_codec = JStr ''mp3'', bitrate = 0, file_size = 0\<rparr>
   \<and> width \<lparr>duration = 0::rat, width = JInt 640, height = JInt 360, fps = Some 25,
         video_codec = JStr ''mpeg4'', audio_codec = JStr ''mp3'', bitrate = 0, file_size = 0\<rparr>
       = field video_sd ''width''
   \<and> video_codec \<lparr>duration = 0::rat, width = JInt 640, height = JInt 360, fps = Some 25,
         video_codec = JStr ''mpeg4'', audio_codec = JStr ''mp3'', bitrate = 0, file_size = 0\<rparr>
       = field video_sd ''codec_name''
   \<and> audio_codec \<lparr>duration = 0::rat, width = JInt 640, height = JInt 360, fps = Some 25,
         video_codec = JStr ''mpeg4'', audio_codec = JStr ''mp3'', bitrate = 0, file_size = 0\<rparr>
       = field audio_mp3 ''codec_name''
   \<and> fps \<lparr>duration = 0::rat, width = JInt 640, height = JInt 360, fps = Some 25,
         video_codec = JStr ''mpeg4'', audio_codec = JStr ''mp3'', bitrate = 0, file_size = 0\<rparr>
       = Some 25"
proof -
  let ?W = "example_world True (Exits 0 ''{...}'' [])
          (Inr (probe_doc [video_hd, video_sd, audio_aac, audio_mp3]))"
  let ?I = "\<lparr>duration = 0::rat, width = JInt 640, height = JInt 360, fps = Some 25,
         video_codec = JStr ''mpeg4'', audio_codec = JStr ''mp3'', bitrate = 0, file_size = 0\<rparr>"
  let ?doc = "[(''streams'', JArr [video_hd, video_sd, audio_aac, audio_mp3])]"
  have w: "path_exists ?W ''in.mov''"
    "spawn ?W (ffprobe_path example_wrapper # info_args ''in.mov'') = Exits 0 ''{...}'' []"
    "json_loads ?W ''{...}'' = Inr (JObj ?doc)"
    by (simp_all add: example_world_def probe_doc_def)
  have fl: "floats ?W = exact_floats"
    by (simp add: example_world_def)
  have dv: "dict_get ?doc ''streams'' (JArr []) = JArr ([video_hd] @ video_sd # [audio_aac, audio_mp3])"
    and da: "dict_get ?doc ''streams'' (JArr []) = JArr ([video_hd, video_sd, audio_aac] @ audio_mp3 # [])"
    by (simp_all add: dict_get_def)
  have kinds: "is_kind ''video'' video_sd" "is_kind ''audio'' audio_mp3"
    "\<not> is_kind ''video'' audio_aac" "\<not> is_kind ''video'' audio_mp3"
    by (simp_all add: is_kind_def video_sd_def audio_aac_def audio_mp3_def dict_get_def)
  note r = example_probe_result
  note tv = info_from_last_streams [OF w dv r, where v = 25]
  note ta = info_from_last_streams [OF w da r, where v = 25]
  from tv kinds have "width ?I = field video_sd ''width'' \<and>
      video_codec ?I = field video_sd ''codec_name''"
    by simp
  moreover from ta kinds have "audio_codec ?I = field audio_mp3 ''codec_name''"
    by simp
  moreover from tv kinds example_frame_rates fl have "fps ?I = Some 25"
    by simp
  ultimately show ?thesis
    using r by blast
qed

subsection \<open>The catalogue parser\<close>

text \<open>
  Claim C6 says that every non-blank line after the first separator line gives its second
  token. The loop skips every line that begins with six dashes, not only the first: in a
  listing whose table has the line \<^verbatim>\<open>------ x\<close>, the token \<^verbatim>\<open>x\<close> is not a format name.
\<close>

theorem later_dashed_line_skipped_counterexample:
  "parse_listing dashed_listing_text = [''libx264'']
   \<and> claimed_listing_names dashed_listing_text = [''x'', ''libx264'']"
  by (simp add: example_listings_parsed claimed_listing_names_def listing_text_lines
      example_tokens)

text \<open>
  Claim C6, amended. The names parsed from a listing are the second tokens of the
  non-blank lines that follow the first separator line and are not separator lines
  themselves (a separator line is one whose stripped text begins with six dashes); lines
  with fewer than two tokens give nothing. This is the list of the claim whenever no
  later separator line has a second token. \<^verbatim>\<open>get_media_formats\<close> never raises, and when
  both listing commands exit, it returns the names parsed from each output that came
  with exit status 0 and the empty list for the other.
\<close>

theorem listing_names_after_separator:
  "parse_listing out =
     concat (map (\<lambda>l. if is_separator l then [] else second_token l)
       (tl (dropWhile (\<lambda>l. \<not> is_separator l) (py_split_on CHR 0x0A out))))
   \<and> (list_all (\<lambda>l. \<not> is_separator l \<or> second_token l = [])
         (tl (dropWhile (\<lambda>l. \<not> is_separator l) (py_split_on CHR 0x0A out))) \<longrightarrow>
       parse_listing out = claimed_listing_names out)
   \<and> (\<forall>e. fst (get_media_formats self W s) \<noteq> Raise e)
   \<and> (spawn W (ffmpeg_cmd self [''-encoders'']) = Exits rc out err \<and>
       spawn W (ffmpeg_cmd self [''-decoders'']) = Exits rc' out' err' \<longrightarrow>
       fst (get_media_formats self W s) =
         Ok \<lparr>encoders = (if rc = 0 then parse_listing out else []),
             decoders = (if rc' = 0 then parse_listing out' else [])\<rparr>)"
proof (intro conjI allI impI)
  show "parse_listing out =
      concat (map (\<lambda>l. if is_separator l then [] else second_token l)
        (tl (dropWhile (\<lambda>l. \<not> is_separator l) (py_split_on CHR 0x0A out))))"
    by (rule parse_listing_eq)
next
  assume "list_all (\<lambda>l. \<not> is_separator l \<or> second_token l = [])
      (tl (dropWhile (\<lambda>l. \<not> is_separator l) (py_split_on CHR 0x0A out)))"
  then have "list_all (\<lambda>l. (if is_separator l then [] else second_token l) = second_token l)
      (tl (dropWhile (\<lambda>l. \<not> is_separator l) (py_split_on CHR 0x0A out)))"
    by (rule list.pred_mono_strong) auto
  then show "parse_listing out = claimed_listing_names out"
    unfolding parse_listing_eq claimed_listing_names_def
    by (rule concat_map_cong_list_all)
next
  fix e
  show "fst (get_media_formats self W s) \<noteq> Raise e"
    by (simp add: get_media_formats_cases split: prod.splits res.splits)
next
  assume h: "spawn W (ffmpeg_cmd self [''-encoders'']) = Exits rc out err \<and>
      spawn W (ffmpeg_cmd self [''-decoders'']) = Exits rc' out' err'"
  then show "fst (get_media_formats self W s) =
      Ok \<lparr>encoders = (if rc = 0 then parse_listing out else []),
          decoders = (if rc' = 0 then parse_listing out' else [])\<rparr>"
    by (simp add: get_media_formats_cases list_names_outcome Let_def)
qed

text \<open>Claim C6, amended, on the first example listing, returned for both commands.\<close>

theorem listing_names_after_separator_witness:
  "parse_listing listing_text = [''libx264'', ''aac'']
   \<and> parse_listing listing_text = claimed_listing_names listing_text
   \<and> (\<forall>e. fst (get_media_formats example_wrapper
        (example_world True (Exits 0 listing_text []) (Inl (JSONDecodeError [])))
        no_effects) \<noteq> Raise e)
   \<and> fst (get_media_formats example_wrapper
        (example_world True (Exits 0 listing_text []) (Inl (JSONDecodeError [])))
        no_effects) =
      Ok \<lparr>encoders = [''libx264'', ''aac''], decoders = [''libx264'', ''aac'']\<rparr>"
proof -
  let ?W = "example_world True (Exits 0 listing_text [])
              (Inl (JSONDecodeError []))"
  note t = listing_names_after_separator [where out = listing_text and self = example_wrapper
      and W = ?W and s = no_effects and rc = 0 and err = "[]" and rc' = 0
      and out' = listing_text and err' = "[]"]
  have sp: "spawn ?W (ffmpeg_cmd example_wrapper [''-encoders'']) = Exits 0 listing_text [] \<and>
      spawn ?W (ffmpeg_cmd example_wrapper [''-decoders'']) = Exits 0 listing_text []"
    by (simp add: example_world_def)
  have la: "list_all (\<lambda>l. \<not> is_separator l \<or> second_token l = [])
      (tl (dropWhile (\<lambda>l. \<not> is_separator l) (py_split_on CHR 0x0A listing_text)))"
    by (simp add: listing_text_lines example_tokens)
  have a: "parse_listing listing_text = [''libx264'', ''aac'']"
    using t [THEN conjunct1] by (simp add: listing_text_lines example_tokens)
  from t la have b: "parse_listing listing_text = claimed_listing_names listing_text"
    by blast
  from t have c: "\<forall>e. fst (get_media_formats example_wrapper ?W no_effects) \<noteq> Raise e"
    by blast
  from t sp have d: "fst (get_media_formats example_wrapper ?W no_effects) =
      Ok \<lparr>encoders = [''libx264'', ''aac''], decoders = [''libx264'', ''aac'']\<rparr>"
    unfolding a by simp
  from a b c d show ?thesis by blast
qed

end
